theory Spec2Isabelle
  imports Complex_Main "HOL-Library.AList" "HOL-Library.Multiset"
begin

section \<open>Python values, dictionaries and data frames\<close>

text \<open>
  The values that end up in a feature row: header values read by pydicom (strings,
  decimal numbers, multi-valued elements such as PixelSpacing and ImageType), Python's
  \<open>None\<close>, the floating-point results of the extractors (idealised as real numbers) and
  the NaN pandas shows for a missing cell.
\<close>

datatype pyval = PyNone | PyNaN | PyStr string | PyFloat real | PyMulti "pyval list"

text \<open>
  A Python \<open>dict\<close> keeps insertion order: an association list with distinct keys.
  \<open>d[k] = v\<close> is \<open>AList.update k v d\<close> (overwrite in place, or append a new key);
  \<open>{**a, **b}\<close> inserts the items of \<open>b\<close> into \<open>a\<close> in order.
\<close>

type_synonym pydict = "(string \<times> pyval) list"

definition dict_merge :: "pydict \<Rightarrow> pydict \<Rightarrow> pydict" where
  "dict_merge a b = fold (\<lambda>kv d. AList.update (fst kv) (snd kv) d) b a"

text \<open>Truthiness of an extractor result: \<open>None\<close> and the empty dict are falsy.\<close>

fun truthy :: "pydict option \<Rightarrow> bool" where
  "truthy None = False"
| "truthy (Some d) = (d \<noteq> [])"

text \<open>The exceptions that reach the caller of the aggregation layers.\<close>

datatype exn = IndexError | KeyError | ValueError | FileNotFoundError | NotADirectoryError

text \<open>
  A \<open>pandas.DataFrame\<close>: its column labels in order and its rows; a row keeps the dict
  it was built from, and a cell the row has no key for reads as NaN.
\<close>

record table =
  columns :: "string list"
  rows :: "pydict list"

definition add_keys :: "string list \<Rightarrow> string list \<Rightarrow> string list" where
  "add_keys cs ks = fold (\<lambda>k acc. if k \<in> set acc then acc else acc @ [k]) ks cs"

text \<open>\<open>pd.DataFrame(data)\<close> for a list of dicts: one row per dict, the columns are the keys
  in order of first appearance.\<close>

definition DataFrame :: "pydict list \<Rightarrow> table" where
  "DataFrame data = \<lparr>columns = fold (\<lambda>r cs. add_keys cs (map fst r)) data [], rows = data\<rparr>"

text \<open>\<open>df[c] = v\<close> for a scalar \<open>v\<close>: the column is added (or overwritten) in every row; a
  frame without rows gets the column label and still has no rows.\<close>

definition set_column :: "string \<Rightarrow> pyval \<Rightarrow> table \<Rightarrow> table" where
  "set_column c v t =
     \<lparr>columns = (if c \<in> set (columns t) then columns t else columns t @ [c]),
      rows = map (AList.update c v) (rows t)\<rparr>"

definition cell :: "pydict \<Rightarrow> string \<Rightarrow> pyval" where
  "cell r c = (case map_of r c of None \<Rightarrow> PyNaN | Some v \<Rightarrow> v)"

text \<open>\<open>df[c]\<close>: KeyError for a label that is not a column.\<close>

definition get_column :: "table \<Rightarrow> string \<Rightarrow> exn + pyval list" where
  "get_column t c = (if c \<in> set (columns t) then Inr (map (\<lambda>r. cell r c) (rows t)) else Inl KeyError)"

text \<open>\<open>series.unique()[0]\<close>: the first value; IndexError when the series is empty.\<close>

definition unique_first :: "pyval list \<Rightarrow> exn + pyval" where
  "unique_first vs = (case vs of [] \<Rightarrow> Inl IndexError | v # _ \<Rightarrow> Inr v)"

text \<open>\<open>pd.concat(frames)\<close>: ValueError ("No objects to concatenate") for an empty list,
  otherwise the rows of the frames one after the other.\<close>

definition pd_concat :: "table list \<Rightarrow> exn + table" where
  "pd_concat ts =
     (if ts = [] then Inl ValueError
      else Inr \<lparr>columns = fold (\<lambda>t cs. add_keys cs (columns t)) ts [],
                rows = concat (map rows ts)\<rparr>)"

section \<open>The file system and the DICOM reader\<close>

text \<open>
  A file is what pydicom makes of it. \<open>dcm_header\<close> is the outcome of
  \<open>dcmread(path, stop_before_pixels=True)\<close>: the exception's message, or the data
  elements by keyword. \<open>dcm_pixels\<close> is the outcome of \<open>dcmread(path).pixel_array\<close>: the
  exception's message, or the array. A file that is not DICOM at all has \<open>Inl\<close> in both.

  The array of a single-frame monochrome file is two-dimensional: \<open>Image\<close> holds its
  samples row by row. An array of any other shape (a multi-frame or a colour file) is
  \<open>OtherShape\<close>. What OpenCV and NumPy make of such an array is not modelled: the
  constructor carries the outcome of the statistics code on it, the message of the
  exception it raises or the three values it returns.
\<close>

datatype pixel_array = Image "int list list" | OtherShape "string + real \<times> real \<times> real"

record dicom_file =
  dcm_header :: "string + (string \<times> pyval) list"
  dcm_pixels :: "string + pixel_array"

datatype fsnode = File dicom_file | Dir "(string \<times> fsnode) list"

text \<open>Paths are kept as their lists of components; \<open>path_str\<close> is the text a log line shows.\<close>

type_synonym path = "string list"

definition os_path_join :: "path \<Rightarrow> string \<Rightarrow> path" where
  "os_path_join p name = p @ [name]"

definition os_path_basename :: "path \<Rightarrow> string" where
  "os_path_basename p = (if p = [] then [] else last p)"

fun path_str :: "path \<Rightarrow> string" where
  "path_str [] = []"
| "path_str [c] = c"
| "path_str (c # cs) = c @ ''/'' @ path_str cs"

fun resolve :: "fsnode \<Rightarrow> path \<Rightarrow> fsnode option" where
  "resolve n [] = Some n"
| "resolve n (c # cs) =
     (case n of
        File f \<Rightarrow> None
      | Dir es \<Rightarrow> (case map_of es c of None \<Rightarrow> None | Some n' \<Rightarrow> resolve n' cs))"

definition os_path_exists :: "fsnode \<Rightarrow> path \<Rightarrow> bool" where
  "os_path_exists fs p = (resolve fs p \<noteq> None)"

fun is_dir :: "fsnode \<Rightarrow> bool" where
  "is_dir (Dir es) = True"
| "is_dir (File f) = False"

definition os_path_isdir :: "fsnode \<Rightarrow> path \<Rightarrow> bool" where
  "os_path_isdir fs p = (case resolve fs p of Some n \<Rightarrow> is_dir n | None \<Rightarrow> False)"

text \<open>\<open>os.listdir\<close>: the names in a directory, in the order the file system lists them.\<close>

definition os_listdir :: "fsnode \<Rightarrow> path \<Rightarrow> exn + string list" where
  "os_listdir fs p =
     (case resolve fs p of
        None \<Rightarrow> Inl FileNotFoundError
      | Some (File f) \<Rightarrow> Inl NotADirectoryError
      | Some (Dir es) \<Rightarrow> Inr (map fst es))"

text \<open>
  \<open>os.walk(top)\<close>, top-down: the triple of a directory (its path, its subdirectories, its
  other entries) and then the walks of its subdirectories in order. A top that is
  missing or is not a directory yields nothing.
\<close>

fun walk_node :: "path \<Rightarrow> fsnode \<Rightarrow> (path \<times> string list \<times> string list) list" where
  "walk_node p (File f) = []"
| "walk_node p (Dir es) =
     (p, map fst (filter (\<lambda>e. is_dir (snd e)) es), map fst (filter (\<lambda>e. \<not> is_dir (snd e)) es))
     # concat (map (\<lambda>e. walk_node (p @ [fst e]) (snd e)) (filter (\<lambda>e. is_dir (snd e)) es))"

definition os_walk :: "fsnode \<Rightarrow> path \<Rightarrow> (path \<times> string list \<times> string list) list" where
  "os_walk fs topdir = (case resolve fs topdir of Some n \<Rightarrow> walk_node topdir n | None \<Rightarrow> [])"

text \<open>\<open>s.endswith(suffix)\<close>.\<close>

definition endswith :: "string \<Rightarrow> string \<Rightarrow> bool" where
  "endswith s suf = (length suf \<le> length s \<and> drop (length s - length suf) s = suf)"

text \<open>The two reads the extractors make. A path that is missing or names a directory
  makes \<open>dcmread\<close> raise an OSError, whose message ends with the path in quotes.\<close>

definition quoted :: "string \<Rightarrow> string" where
  "quoted s = [CHR 0x27] @ s @ [CHR 0x27]"

definition dcmread_header :: "fsnode \<Rightarrow> path \<Rightarrow> string + (string \<times> pyval) list" where
  "dcmread_header fs p =
     (case resolve fs p of
        Some (File f) \<Rightarrow> dcm_header f
      | Some (Dir es) \<Rightarrow> Inl (''[Errno 21] Is a directory: '' @ quoted (path_str p))
      | None \<Rightarrow> Inl (''[Errno 2] No such file or directory: '' @ quoted (path_str p)))"

text \<open>A decoded image has at least one row and one column and is rectangular (Rows and
  Columns are positive in DICOM); a payload that is not is a decoding error.\<close>

definition is_image :: "int list list \<Rightarrow> bool" where
  "is_image px = (px \<noteq> [] \<and> list_all (\<lambda>r. r \<noteq> [] \<and> length r = length (hd px)) px)"

definition dcmread_pixel_array :: "fsnode \<Rightarrow> path \<Rightarrow> string + pixel_array" where
  "dcmread_pixel_array fs p =
     (case resolve fs p of
        Some (File f) \<Rightarrow>
          (case dcm_pixels f of
             Inl e \<Rightarrow> Inl e
           | Inr (Image px) \<Rightarrow>
               if is_image px then Inr (Image px) else Inl ''Unable to decode the pixel data''
           | Inr (OtherShape outcome) \<Rightarrow> Inr (OtherShape outcome))
      | Some (Dir es) \<Rightarrow> Inl (''[Errno 21] Is a directory: '' @ quoted (path_str p))
      | None \<Rightarrow> Inl (''[Errno 2] No such file or directory: '' @ quoted (path_str p)))"

section \<open>The metadata extractor\<close>

definition metadata_keys :: "string list" where
  "metadata_keys =
     [''PatientID'', ''StudyDate'', ''Modality'', ''Manufacturer'', ''MagneticFieldStrength'',
      ''SliceThickness'', ''PixelSpacing'', ''ImageType'', ''BodyPartExamined'',
      ''ContrastBolusAgent'', ''RepetitionTime'', ''EchoTime'']"

text \<open>\<open>getattr(ds, key, None)\<close>.\<close>

definition getattr_or_none :: "(string \<times> pyval) list \<Rightarrow> string \<Rightarrow> pyval" where
  "getattr_or_none ds key = (case map_of ds key of None \<Rightarrow> PyNone | Some v \<Rightarrow> v)"

text \<open>Every extractor returns its result (\<open>None\<close> is the failure sentinel) and the lines it
  sent to \<open>logger.error\<close>.\<close>

definition extract_dicom_metadata :: "fsnode \<Rightarrow> path \<Rightarrow> pydict option \<times> string list" where
  "extract_dicom_metadata fs dicom_file =
     (case dcmread_header fs dicom_file of
        Inl e \<Rightarrow> (None, [''Error reading '' @ path_str dicom_file @ '': '' @ e])
      | Inr ds \<Rightarrow>
          (let metadata = map (\<lambda>key. (key, getattr_or_none ds key)) metadata_keys
           in (Some (AList.update ''DCMFileName'' (PyStr (os_path_basename dicom_file)) metadata), [])))"

section \<open>Floating-point arithmetic\<close>

text \<open>
  OpenCV rescales in single precision, and what the truncation to 8 bits makes of a
  value just below a whole number depends on the rounding. So the arithmetic is a
  parameter of the model: \<open>to_single\<close> and \<open>to_double\<close> round a real number to single and
  to double precision (\<open>astype(np.float32)\<close>, the casts \<open>(float)x\<close> and the result of each
  operation on doubles), and \<open>scale_shift x a b\<close> is what \<open>convertTo\<close> computes for
  \<open>x * a + b\<close> on one single-precision sample, fused or in two rounded steps as the
  build and the hardware have it. The definitions assume nothing about the three; a
  theorem names the properties of IEEE arithmetic it relies on.
\<close>

record float_ops =
  to_single :: "real \<Rightarrow> real"
  to_double :: "real \<Rightarrow> real"
  scale_shift :: "real \<Rightarrow> real \<Rightarrow> real \<Rightarrow> real"

text \<open>Zero is not rounded away, and \<open>scale_shift\<close> is the fused or the two-step
  multiply-add of the single-precision rounding.\<close>

definition rounds_zero :: "float_ops \<Rightarrow> bool" where
  "rounds_zero fp =
     (to_single fp 0 = 0 \<and> to_double fp 0 = 0 \<and>
      (\<forall>x a b. scale_shift fp x a b = to_single fp (x * a + b) \<or>
               scale_shift fp x a b = to_single fp (to_single fp (x * a) + b)))"


text \<open>Arithmetic without rounding, the simplest instance.\<close>

definition exact_ops :: float_ops where
  "exact_ops = \<lparr>to_single = (\<lambda>x. x), to_double = (\<lambda>x. x), scale_shift = (\<lambda>x a b. x * a + b)\<rparr>"

section \<open>The statistics extractor\<close>

text \<open>
  \<open>cv2.normalize(src, None, a, b, cv2.NORM_MINMAX)\<close> on a single-precision array. In
  doubles it computes
  \<open>scale = (dmax - dmin) * (smax - smin > DBL_EPSILON ? 1. / (smax - smin) : 0)\<close>, where
  \<open>smin\<close>, \<open>smax\<close> are the least and greatest sample and \<open>dmin = min a b\<close>,
  \<open>dmax = max a b\<close>; then, the result being single precision, \<open>scale = (float)scale\<close> and
  \<open>shift = (float)dmin - (float)(smin * scale)\<close>; and \<open>convertTo\<close> maps every sample \<open>x\<close> to
  \<open>x * scale + shift\<close> in single precision.
\<close>

definition dbl_epsilon :: real where
  "dbl_epsilon = 1 / 2 ^ 52"

definition minmax_scale :: "float_ops \<Rightarrow> real \<Rightarrow> real \<Rightarrow> real \<Rightarrow> real \<Rightarrow> real" where
  "minmax_scale fp smin smax dmin dmax =
     to_single fp
       (to_double fp (to_double fp (dmax - dmin) *
          (if to_double fp (smax - smin) > dbl_epsilon
           then to_double fp (1 / to_double fp (smax - smin)) else 0)))"

definition minmax_shift :: "float_ops \<Rightarrow> real \<Rightarrow> real \<Rightarrow> real \<Rightarrow> real" where
  "minmax_shift fp smin scale dmin =
     to_single fp (to_single fp dmin - to_single fp (to_double fp (smin * scale)))"

definition cv2_normalize_minmax ::
  "float_ops \<Rightarrow> real list list \<Rightarrow> real \<Rightarrow> real \<Rightarrow> real list list" where
  "cv2_normalize_minmax fp src a b =
     (let smin = Min (set (concat src)); smax = Max (set (concat src));
          dmin = min a b; dmax = max a b;
          scale = minmax_scale fp smin smax dmin dmax;
          shift = minmax_shift fp smin scale dmin
      in map (map (\<lambda>x. scale_shift fp x scale shift)) src)"

text \<open>\<open>astype(np.uint8)\<close> of a float truncates toward zero (and wraps modulo 256); of an
  integer it wraps modulo 256.\<close>

definition float_to_uint8 :: "real \<Rightarrow> nat" where
  "float_to_uint8 x = nat ((if 0 \<le> x then \<lfloor>x\<rfloor> else \<lceil>x\<rceil>) mod 256)"

definition int_to_uint8 :: "int \<Rightarrow> nat" where
  "int_to_uint8 i = nat (i mod 256)"

text \<open>The results of \<open>np.mean\<close>, \<open>np.std\<close> and of the entropy are double-precision numbers;
  they are read as the real numbers they approximate.\<close>

definition np_mean :: "nat list \<Rightarrow> real" where
  "np_mean xs = (\<Sum>x\<leftarrow>xs. real x) / real (length xs)"

text \<open>\<open>np.std\<close> with its default \<open>ddof=0\<close>: the population standard deviation.\<close>

definition np_std :: "nat list \<Rightarrow> real" where
  "np_std xs = sqrt ((\<Sum>x\<leftarrow>xs. (real x - np_mean xs)\<^sup>2) / real (length xs))"

text \<open>\<open>cv2.calcHist([img], [0], None, [256], [0, 256]).flatten()\<close> of an 8-bit image: bin
  \<open>b\<close> holds the number of samples equal to \<open>b\<close>.\<close>

definition cv2_calcHist :: "nat list \<Rightarrow> real list" where
  "cv2_calcHist xs = map (\<lambda>b. real (count_list xs b)) [0..<256]"

text \<open>The buffer after \<open>astype(np.float32)\<close>, \<open>cv2.normalize\<close> and \<open>astype(np.uint8)\<close>.\<close>

definition rescaled_buffer :: "float_ops \<Rightarrow> int list list \<Rightarrow> nat list list" where
  "rescaled_buffer fp px =
     map (map float_to_uint8)
       (cv2_normalize_minmax fp (map (map (\<lambda>x. to_single fp (real_of_int x))) px) 0 255)"

definition entropy_value :: "real list \<Rightarrow> real" where
  "entropy_value hist = - (\<Sum>h\<leftarrow>hist. h * log 2 (h + 1 / 10 ^ 7))"

definition extract_image_statistics ::
  "float_ops \<Rightarrow> fsnode \<Rightarrow> path \<Rightarrow> pydict option \<times> string list" where
  "extract_image_statistics fp fs dicom_file =
     (case dcmread_pixel_array fs dicom_file of
        Inl e \<Rightarrow> (None, [''Error processing image data from '' @ path_str dicom_file @ '': '' @ e])
      | Inr (Image px) \<Rightarrow>
          (let pixel_array = concat (rescaled_buffer fp px);
               mean_intensity = np_mean pixel_array;
               std_intensity = np_std pixel_array;
               entropy = cv2_calcHist pixel_array
           in (Some [(''MeanIntensity'', PyFloat mean_intensity),
                     (''StdIntensity'', PyFloat std_intensity),
                     (''Entropy'', PyFloat (entropy_value entropy))], []))
      | Inr (OtherShape outcome) \<Rightarrow>
          (case outcome of
             Inl e \<Rightarrow>
               (None, [''Error processing image data from '' @ path_str dicom_file @ '': '' @ e])
           | Inr (mean_intensity, std_intensity, entropy) \<Rightarrow>
               (Some [(''MeanIntensity'', PyFloat mean_intensity),
                      (''StdIntensity'', PyFloat std_intensity),
                      (''Entropy'', PyFloat entropy)], [])))"

section \<open>The texture extractor\<close>

text \<open>
  \<open>skimage.feature.graycomatrix(image, distances, angles, levels, symmetric, normed)\<close>.
  For each distance \<open>d\<close> and angle \<open>a\<close> the offset is
  \<open>(round (sin a * d), round (cos a * d))\<close>, and entry \<open>(i, j)\<close> counts the positions
  \<open>(r, c)\<close> with \<open>image[r, c] = i\<close> whose neighbour at that offset lies inside the image and
  holds \<open>j\<close> (both below \<open>levels\<close>). \<open>symmetric\<close> adds the transpose; \<open>normed\<close> divides by
  the sum of the matrix (by 1 when the sum is 0). The result is indexed
  \<open>[distance][angle]\<close>, each matrix a function of \<open>(i, j)\<close>. The matrices and their
  properties are double-precision numbers, read as the real numbers they approximate.

  \<open>graycomatrix\<close> raises ValueError for an image that is not two-dimensional; its other
  checks (no negative sample, every sample below \<open>levels\<close>) cannot fail on an 8-bit
  image with 256 levels.
\<close>

definition pixel_at :: "nat list list \<Rightarrow> int \<Rightarrow> int \<Rightarrow> nat option" where
  "pixel_at img r c =
     (if 0 \<le> r \<and> r < int (length img) \<and> 0 \<le> c \<and> c < int (length (img ! nat r))
      then Some (img ! nat r ! nat c) else None)"

definition positions :: "nat list list \<Rightarrow> (int \<times> int) list" where
  "positions img =
     concat (map (\<lambda>r. map (\<lambda>c. (int r, int c)) [0..<length (img ! r)]) [0..<length img])"

definition glcm_count :: "nat list list \<Rightarrow> int \<Rightarrow> int \<Rightarrow> nat \<Rightarrow> nat \<Rightarrow> nat \<Rightarrow> nat" where
  "glcm_count img dr dc levels i j =
     length (filter (\<lambda>rc. i < levels \<and> j < levels \<and> pixel_at img (fst rc) (snd rc) = Some i \<and>
                          pixel_at img (fst rc + dr) (snd rc + dc) = Some j) (positions img))"

definition matrix_sum :: "nat \<Rightarrow> (nat \<Rightarrow> nat \<Rightarrow> real) \<Rightarrow> real" where
  "matrix_sum levels P = (\<Sum>i\<leftarrow>[0..<levels]. \<Sum>j\<leftarrow>[0..<levels]. P i j)"

definition normalize_matrix :: "nat \<Rightarrow> (nat \<Rightarrow> nat \<Rightarrow> real) \<Rightarrow> nat \<Rightarrow> nat \<Rightarrow> real" where
  "normalize_matrix levels P =
     (let s = matrix_sum levels P; s' = (if s = 0 then 1 else s) in (\<lambda>i j. P i j / s'))"

record glcm =
  glcm_levels :: nat
  glcm_P :: "(nat \<Rightarrow> nat \<Rightarrow> real) list list"

definition graycomatrix ::
  "nat list list \<Rightarrow> nat list \<Rightarrow> real list \<Rightarrow> nat \<Rightarrow> bool \<Rightarrow> bool \<Rightarrow> glcm" where
  "graycomatrix img distances angles levels symmetric normed =
     \<lparr>glcm_levels = levels,
      glcm_P = map (\<lambda>d. map (\<lambda>a.
         (let dr = round (sin a * real d); dc = round (cos a * real d);
              P0 = (\<lambda>i j. real (glcm_count img dr dc levels i j));
              P1 = (if symmetric then (\<lambda>i j. P0 i j + P0 j i) else P0)
          in if normed then normalize_matrix levels P1 else P1)) angles) distances\<rparr>"

text \<open>\<open>skimage.feature.graycoprops(P, prop)\<close>: the property of each matrix, after
  normalising it again; the result is indexed \<open>[distance][angle]\<close>.\<close>

datatype glcm_prop = Contrast | Correlation | Energy | Homogeneity

fun glcm_property :: "glcm_prop \<Rightarrow> nat \<Rightarrow> (nat \<Rightarrow> nat \<Rightarrow> real) \<Rightarrow> real" where
  "glcm_property Contrast n P = matrix_sum n (\<lambda>i j. P i j * (real i - real j)\<^sup>2)"
| "glcm_property Homogeneity n P = matrix_sum n (\<lambda>i j. P i j * (1 / (1 + (real i - real j)\<^sup>2)))"
| "glcm_property Energy n P = sqrt (matrix_sum n (\<lambda>i j. (P i j)\<^sup>2))"
| "glcm_property Correlation n P =
     (let mu_i = matrix_sum n (\<lambda>i j. real i * P i j);
          mu_j = matrix_sum n (\<lambda>i j. real j * P i j);
          std_i = sqrt (matrix_sum n (\<lambda>i j. P i j * (real i - mu_i)\<^sup>2));
          std_j = sqrt (matrix_sum n (\<lambda>i j. P i j * (real j - mu_j)\<^sup>2));
          cov = matrix_sum n (\<lambda>i j. P i j * ((real i - mu_i) * (real j - mu_j)))
      in if std_i < 1 / 10 ^ 15 \<or> std_j < 1 / 10 ^ 15 then 1 else cov / (std_i * std_j))"

definition graycoprops :: "glcm \<Rightarrow> glcm_prop \<Rightarrow> real list list" where
  "graycoprops g prop =
     map (map (\<lambda>P. glcm_property prop (glcm_levels g) (normalize_matrix (glcm_levels g) P)))
       (glcm_P g)"

text \<open>\<open>a[0, 0]\<close> of a two-dimensional result.\<close>

definition at00 :: "real list list \<Rightarrow> real" where
  "at00 a = hd (hd a)"

definition extract_glcm_features :: "fsnode \<Rightarrow> path \<Rightarrow> pydict option \<times> string list" where
  "extract_glcm_features fs dicom_file =
     (case dcmread_pixel_array fs dicom_file of
        Inl e \<Rightarrow> (None, [''Error extracting GLCM features from '' @ path_str dicom_file @ '': '' @ e])
      | Inr (Image px) \<Rightarrow>
          (let pixel_array = map (map int_to_uint8) px;
               glcm = graycomatrix pixel_array [1] [0] 256 True True
           in (Some [(''GLCM_Contrast'', PyFloat (at00 (graycoprops glcm Contrast))),
                     (''GLCM_Correlation'', PyFloat (at00 (graycoprops glcm Correlation))),
                     (''GLCM_Energy'', PyFloat (at00 (graycoprops glcm Energy))),
                     (''GLCM_Homogeneity'', PyFloat (at00 (graycoprops glcm Homogeneity)))], []))
      | Inr (OtherShape outcome) \<Rightarrow>
          (None, [''Error extracting GLCM features from '' @ path_str dicom_file @ '': '' @
                  ''The parameter `image` must be a 2-dimensional array'']))"

section \<open>The aggregation layers\<close>

text \<open>One iteration of the inner loop of \<open>process_dicom_directory\<close>: the accumulator holds
  \<open>data\<close> and the log lines so far.\<close>

definition visit_file ::
  "float_ops \<Rightarrow> fsnode \<Rightarrow> path \<Rightarrow> string \<Rightarrow> pydict list \<times> string list \<Rightarrow> pydict list \<times> string list" where
  "visit_file fp fs rootdir file acc =
     (if endswith file ''.dcm'' then
        (let dicom_path = os_path_join rootdir file;
             metadata = extract_dicom_metadata fs dicom_path;
             image_stats = extract_image_statistics fp fs dicom_path;
             glcm_features = extract_glcm_features fs dicom_path;
             lg = snd acc @ snd metadata @ snd image_stats @ snd glcm_features
         in if truthy (fst metadata) \<and> truthy (fst image_stats) \<and> truthy (fst glcm_features)
            then (fst acc @ [dict_merge (dict_merge (the (fst metadata)) (the (fst image_stats)))
                                        (the (fst glcm_features))], lg)
            else (fst acc, lg))
      else acc)"

definition process_dicom_directory :: "float_ops \<Rightarrow> fsnode \<Rightarrow> path \<Rightarrow> table \<times> string list" where
  "process_dicom_directory fp fs directory =
     (let acc = fold (\<lambda>triple acc. fold (visit_file fp fs (fst triple)) (snd (snd triple)) acc)
                  (os_walk fs directory) ([], [])
      in (DataFrame (fst acc), snd acc))"

record DICOMProcessor =
  root_directory :: path
  num_workers :: int
  scan_types :: "string list"

definition init_DICOMProcessor :: "path \<Rightarrow> int \<Rightarrow> DICOMProcessor" where
  "init_DICOMProcessor rootdir nw =
     \<lparr>root_directory = rootdir, num_workers = nw,
      scan_types = [''FLAIR'', ''T1w'', ''T1wCE'', ''T2w'']\<rparr>"

text \<open>One iteration of the loop of \<open>process_subject\<close>.\<close>

definition visit_scan_type ::
  "float_ops \<Rightarrow> fsnode \<Rightarrow> path \<Rightarrow> string \<Rightarrow> table list \<times> string list \<Rightarrow> table list \<times> string list" where
  "visit_scan_type fp fs subject_path scan_type acc =
     (let subject_id = os_path_basename subject_path;
          dicom_dir = os_path_join subject_path scan_type
      in if os_path_exists fs dicom_dir then
           (let res = process_dicom_directory fp fs dicom_dir;
                dicom_features = fst res;
                dicom_features = (if ''PatientID'' \<notin> set (columns dicom_features)
                                  then set_column ''SubjectID'' (PyStr subject_id) dicom_features
                                  else dicom_features);
                dicom_features = set_column ''ScanType'' (PyStr scan_type) dicom_features
            in (fst acc @ [dicom_features], snd acc @ snd res))
         else acc)"

definition process_subject :: "float_ops \<Rightarrow> DICOMProcessor \<Rightarrow> fsnode \<Rightarrow> path \<Rightarrow> table list \<times> string list" where
  "process_subject fp self fs subject_path =
     fold (visit_scan_type fp fs subject_path) (scan_types self) ([], [])"

text \<open>
  The grouping loop of \<open>process_all_subjects_parallel\<close>. \<open>scan_types_dict\<close> maps each scan
  type to the list of frames collected so far; an exception ends the loop.
\<close>

type_synonym buckets = "(string \<times> table list) list"

definition group_table :: "table \<Rightarrow> buckets \<Rightarrow> exn + buckets" where
  "group_table scan_df scan_types_dict =
     (case get_column scan_df ''ScanType'' of
        Inl e \<Rightarrow> Inl e
      | Inr vs \<Rightarrow>
          (case unique_first vs of
             Inl e \<Rightarrow> Inl e
           | Inr v \<Rightarrow>
               (case v of
                  PyStr scan_type \<Rightarrow>
                    (case map_of scan_types_dict scan_type of
                       None \<Rightarrow> Inl KeyError
                     | Some bucket \<Rightarrow>
                         Inr (AList.update scan_type (bucket @ [scan_df]) scan_types_dict))
                | _ \<Rightarrow> Inl KeyError)))"

fun group_tables :: "table list \<Rightarrow> buckets \<Rightarrow> exn + buckets" where
  "group_tables [] d = Inr d"
| "group_tables (scan_df # subject_results) d =
     (case group_table scan_df d of
        Inl e \<Rightarrow> Inl e
      | Inr d' \<Rightarrow> group_tables subject_results d')"

fun group_results :: "table list list \<Rightarrow> buckets \<Rightarrow> exn + buckets" where
  "group_results [] d = Inr d"
| "group_results (subject_results # results) d =
     (case group_tables subject_results d of
        Inl e \<Rightarrow> Inl e
      | Inr d' \<Rightarrow> group_results results d')"

text \<open>The returned dict comprehension: one \<open>pd.concat\<close> per key, in key order.\<close>

fun concat_buckets :: "buckets \<Rightarrow> exn + (string \<times> table) list" where
  "concat_buckets [] = Inr []"
| "concat_buckets (kb # rest) =
     (case pd_concat (snd kb) of
        Inl e \<Rightarrow> Inl e
      | Inr t \<Rightarrow>
          (case concat_buckets rest of
             Inl e \<Rightarrow> Inl e
           | Inr r \<Rightarrow> Inr ((fst kb, t) # r)))"

definition regroup :: "DICOMProcessor \<Rightarrow> table list list \<Rightarrow> exn + (string \<times> table) list" where
  "regroup self results =
     (let scan_types_dict = fold (\<lambda>scan_type d. AList.update scan_type [] d) (scan_types self) []
      in case group_results results scan_types_dict of
           Inl e \<Rightarrow> Inl e
         | Inr d \<Rightarrow> concat_buckets d)"

text \<open>
  The pool and what follows it, for a given list of subjects.
  \<open>multiprocessing.Pool(processes=n)\<close> raises ValueError for \<open>n < 1\<close>; \<open>pool.imap\<close> hands
  the results back in the order of the subjects. The second component collects the log
  lines of the workers.
\<close>

definition process_subjects ::
  "float_ops \<Rightarrow> DICOMProcessor \<Rightarrow> fsnode \<Rightarrow> path list \<Rightarrow> (exn + (string \<times> table) list) \<times> string list" where
  "process_subjects fp self fs subjects =
     (if num_workers self < 1 then (Inl ValueError, [])
      else (let results = map (process_subject fp self fs) subjects
            in (regroup self (map fst results), concat (map snd results))))"

definition process_all_subjects_parallel ::
  "float_ops \<Rightarrow> DICOMProcessor \<Rightarrow> fsnode \<Rightarrow> (exn + (string \<times> table) list) \<times> string list" where
  "process_all_subjects_parallel fp self fs =
     (case os_listdir fs (root_directory self) of
        Inl e \<Rightarrow> (Inl e, [])
      | Inr names \<Rightarrow>
          process_subjects fp self fs
            (map (os_path_join (root_directory self))
               (filter (\<lambda>subdir. os_path_isdir fs (os_path_join (root_directory self) subdir)) names)))"

section \<open>Notions the properties are stated with\<close>

text \<open>The files a walk of the directory visits whose name ends in \<open>.dcm\<close>, as the paths
  the extractors are called with, in the order of the walk.\<close>

definition dcm_paths :: "fsnode \<Rightarrow> path \<Rightarrow> path list" where
  "dcm_paths fs directory =
     concat (map (\<lambda>triple. map (os_path_join (fst triple))
                              (filter (\<lambda>file. endswith file ''.dcm'') (snd (snd triple))))
                 (os_walk fs directory))"

text \<open>All three extractors return a record for the file, none the sentinel.\<close>

definition all_succeed :: "float_ops \<Rightarrow> fsnode \<Rightarrow> path \<Rightarrow> bool" where
  "all_succeed fp fs p =
     (fst (extract_dicom_metadata fs p) \<noteq> None \<and> fst (extract_image_statistics fp fs p) \<noteq> None \<and>
      fst (extract_glcm_features fs p) \<noteq> None)"

text \<open>The row \<open>process_dicom_directory\<close> appends for a file, and the field-wise union of
  the three records of the file: every key of each record, with the value that record
  gives it.\<close>

definition feature_row :: "float_ops \<Rightarrow> fsnode \<Rightarrow> path \<Rightarrow> pydict" where
  "feature_row fp fs p =
     dict_merge (dict_merge (the (fst (extract_dicom_metadata fs p)))
                            (the (fst (extract_image_statistics fp fs p))))
                (the (fst (extract_glcm_features fs p)))"

definition record_union :: "float_ops \<Rightarrow> fsnode \<Rightarrow> path \<Rightarrow> string \<Rightarrow> pyval option" where
  "record_union fp fs p =
     map_of (the (fst (extract_dicom_metadata fs p))) ++
     map_of (the (fst (extract_image_statistics fp fs p))) ++
     map_of (the (fst (extract_glcm_features fs p)))"

text \<open>The frame \<open>process_subject\<close> appends for a scan type whose path exists, and the scan
  types of a subject for which it does.\<close>

definition scan_table :: "float_ops \<Rightarrow> fsnode \<Rightarrow> path \<Rightarrow> string \<Rightarrow> table" where
  "scan_table fp fs subject_path scan_type =
     (let t = fst (process_dicom_directory fp fs (os_path_join subject_path scan_type))
      in set_column ''ScanType'' (PyStr scan_type)
           (if ''PatientID'' \<notin> set (columns t)
            then set_column ''SubjectID'' (PyStr (os_path_basename subject_path)) t else t))"

definition present_scan_types :: "DICOMProcessor \<Rightarrow> fsnode \<Rightarrow> path \<Rightarrow> string list" where
  "present_scan_types self fs subject_path =
     filter (\<lambda>scan_type. os_path_exists fs (os_path_join subject_path scan_type)) (scan_types self)"



text \<open>The linear map onto 0..255 without rounding, truncated: the 8-bit value of sample
  \<open>x\<close> in a buffer whose least sample is \<open>lo\<close> and greatest \<open>hi\<close>.\<close>

definition rescale_sample :: "int \<Rightarrow> int \<Rightarrow> int \<Rightarrow> nat" where
  "rescale_sample lo hi x =
     (if lo < hi then nat \<lfloor>real_of_int (x - lo) * 255 / real_of_int (hi - lo)\<rfloor> else 0)"

text \<open>
  The co-occurrence matrix in words. The pairs of a row are its samples with their right
  neighbours; \<open>pair_count img i j\<close> is the number of pairs \<open>(i, j)\<close> in the rows of the
  image; the matrix counts every pair in both directions and divides by the number of
  counted pairs, twice the number of pairs (by 1 when there is none).
\<close>

definition adjacent_pairs :: "nat list \<Rightarrow> (nat \<times> nat) list" where
  "adjacent_pairs row = zip row (tl row)"

definition pair_count :: "nat list list \<Rightarrow> nat \<Rightarrow> nat \<Rightarrow> nat" where
  "pair_count img i j = count_list (concat (map adjacent_pairs img)) (i, j)"

definition cooccurrence :: "nat list list \<Rightarrow> nat \<Rightarrow> nat \<Rightarrow> real" where
  "cooccurrence img i j =
     (real (pair_count img i j) + real (pair_count img j i)) /
     (if concat (map adjacent_pairs img) = [] then 1
      else 2 * real (length (concat (map adjacent_pairs img))))"

text \<open>
  The four texture properties of a 256 x 256 matrix \<open>P\<close> in words: contrast is the sum of
  \<open>P i j * (i - j)\<^sup>2\<close> over all entries, homogeneity the sum of \<open>P i j / (1 + (i - j)\<^sup>2)\<close>,
  energy the square root of the sum of \<open>(P i j)\<^sup>2\<close>, and correlation the covariance of
  the row index and the column index under \<open>P\<close> divided by the product of their standard
  deviations (and 1 when a standard deviation is below \<open>1e-15\<close>).
\<close>

definition weighted_sum :: "(nat \<Rightarrow> nat \<Rightarrow> real) \<Rightarrow> (nat \<Rightarrow> nat \<Rightarrow> real) \<Rightarrow> real" where
  "weighted_sum P f = (\<Sum>i<256. \<Sum>j<256. P i j * f i j)"

definition contrast_of :: "(nat \<Rightarrow> nat \<Rightarrow> real) \<Rightarrow> real" where
  "contrast_of P = weighted_sum P (\<lambda>i j. (real i - real j)\<^sup>2)"

definition homogeneity_of :: "(nat \<Rightarrow> nat \<Rightarrow> real) \<Rightarrow> real" where
  "homogeneity_of P = weighted_sum P (\<lambda>i j. 1 / (1 + (real i - real j)\<^sup>2))"

definition energy_of :: "(nat \<Rightarrow> nat \<Rightarrow> real) \<Rightarrow> real" where
  "energy_of P = sqrt (weighted_sum P P)"

definition correlation_of :: "(nat \<Rightarrow> nat \<Rightarrow> real) \<Rightarrow> real" where
  "correlation_of P =
     (let mean_i = weighted_sum P (\<lambda>i j. real i);
          mean_j = weighted_sum P (\<lambda>i j. real j);
          sd_i = sqrt (weighted_sum P (\<lambda>i j. (real i - mean_i)\<^sup>2));
          sd_j = sqrt (weighted_sum P (\<lambda>i j. (real j - mean_j)\<^sup>2));
          covariance = weighted_sum P (\<lambda>i j. (real i - mean_i) * (real j - mean_j))
      in if sd_i < 1 / 10 ^ 15 \<or> sd_j < 1 / 10 ^ 15 then 1 else covariance / (sd_i * sd_j))"

text \<open>What two runs are compared by: the number of rows per scan type, and the
  (file name, scan type) pairs of the rows; an exception is compared as it is.\<close>

definition row_counts :: "(string \<times> table) list \<Rightarrow> (string \<times> nat) list" where
  "row_counts rs = map (\<lambda>kt. (fst kt, length (rows (snd kt)))) rs"

definition file_scan_pairs :: "(string \<times> table) list \<Rightarrow> (pyval \<times> pyval) set" where
  "file_scan_pairs rs =
     set (concat (map (\<lambda>kt. map (\<lambda>r. (cell r ''DCMFileName'', cell r ''ScanType'')) (rows (snd kt))) rs))"

definition run_summary ::
  "exn + (string \<times> table) list \<Rightarrow> exn + (string \<times> nat) list \<times> (pyval \<times> pyval) set" where
  "run_summary res =
     (case res of Inl e \<Rightarrow> Inl e | Inr rs \<Rightarrow> Inr (row_counts rs, file_scan_pairs rs))"

text \<open>Auxiliary notions for the grouping loop: a frame whose ScanType column holds \<open>st\<close> in
  every row, the dict with the given keys in order, the frames carrying a label, and
  the frames of a list of subjects paired with their labels.\<close>

definition labelled :: "string \<Rightarrow> table \<Rightarrow> bool" where
  "labelled st t =
     (''ScanType'' \<in> set (columns t) \<and> list_all (\<lambda>r. cell r ''ScanType'' = PyStr st) (rows t))"

definition tabulate :: "string list \<Rightarrow> (string \<Rightarrow> table list) \<Rightarrow> buckets" where
  "tabulate keys B = map (\<lambda>k. (k, B k)) keys"

definition tables_of :: "string \<Rightarrow> (string \<times> table) list \<Rightarrow> table list" where
  "tables_of k lts = map snd (filter (\<lambda>lt. fst lt = k) lts)"

definition labelled_tables ::
  "float_ops \<Rightarrow> DICOMProcessor \<Rightarrow> fsnode \<Rightarrow> path list \<Rightarrow> (string \<times> table) list" where
  "labelled_tables fp self fs subjects =
     concat (map (\<lambda>sp. map (\<lambda>st. (st, scan_table fp fs sp st)) (present_scan_types self fs sp)) subjects)"

definition summary_of ::
  "string list \<Rightarrow> (string \<times> table) list \<Rightarrow> exn + (string \<times> nat) list \<times> (pyval \<times> pyval) set" where
  "summary_of keys lts =
     (if list_ex (\<lambda>lt. rows (snd lt) = []) lts then Inl IndexError
      else if list_ex (\<lambda>k. tables_of k lts = []) keys then Inl ValueError
      else Inr (map (\<lambda>k. (k, size (mset (concat (map rows (tables_of k lts)))))) keys,
                (\<Union>k\<in>set keys. (\<lambda>r. (cell r ''DCMFileName'', cell r ''ScanType'')) `
                     set_mset (mset (concat (map rows (tables_of k lts)))))))"

section \<open>Example data\<close>

text \<open>A slice with a few header elements and a 2 x 2 image, a blank slice (every sample
  the same), a file that is not DICOM, and a multi-frame file, on whose array the
  statistics code returns three values.\<close>

definition example_slice :: dicom_file where
  "example_slice =
     \<lparr>dcm_header = Inr [(''PatientID'', PyStr ''00000''), (''Modality'', PyStr ''MR''),
                        (''PixelSpacing'', PyMulti [PyFloat 1, PyFloat 1])],
      dcm_pixels = Inr (Image [[0, 3], [7, 300]])\<rparr>"

definition blank_slice :: dicom_file where
  "blank_slice =
     \<lparr>dcm_header = Inr [(''PatientID'', PyStr ''00000''), (''Modality'', PyStr ''MR'')],
      dcm_pixels = Inr (Image [[5, 5], [5, 5]])\<rparr>"

definition corrupt_slice :: dicom_file where
  "corrupt_slice =
     \<lparr>dcm_header = Inl ''File is missing DICOM File Meta Information header'',
      dcm_pixels = Inl ''File is missing DICOM File Meta Information header''\<rparr>"

definition multiframe_file :: dicom_file where
  "multiframe_file =
     \<lparr>dcm_header = Inr [(''PatientID'', PyStr ''00000''), (''Modality'', PyStr ''MR'')],
      dcm_pixels = Inr (OtherShape (Inr (100, 50, - 1000)))\<rparr>"

text \<open>A root with one subject that has all four scan-type directories, each with one
  file; the first file of FLAIR is a parameter.\<close>

definition one_subject_tree :: "dicom_file \<Rightarrow> fsnode" where
  "one_subject_tree f =
     Dir [(''00000'',
           Dir [(''FLAIR'', Dir [(''Image-1.dcm'', File f)]),
                (''T1w'', Dir [(''Image-1.dcm'', File example_slice)]),
                (''T1wCE'', Dir [(''Image-1.dcm'', File blank_slice)]),
                (''T2w'', Dir [(''Image-1.dcm'', File example_slice)])])]"

text \<open>The same subject with an empty FLAIR directory, and a subject with two of the four
  directories, one of them holding a corrupt file and a file of another kind.\<close>

definition empty_flair_tree :: fsnode where
  "empty_flair_tree =
     Dir [(''00000'',
           Dir [(''FLAIR'', Dir []),
                (''T1w'', Dir [(''Image-1.dcm'', File example_slice)]),
                (''T1wCE'', Dir [(''Image-1.dcm'', File blank_slice)]),
                (''T2w'', Dir [(''Image-1.dcm'', File example_slice)])])]"

definition two_scan_tree :: fsnode where
  "two_scan_tree =
     Dir [(''00002'',
           Dir [(''T1w'', Dir [(''Image-1.dcm'', File example_slice),
                               (''Image-2.dcm'', File corrupt_slice),
                               (''notes.txt'', File corrupt_slice)]),
                (''T2w'', Dir [(''Image-1.dcm'', File blank_slice)])])]"

text \<open>A root with two subjects and a stray file.\<close>

definition two_subject_tree :: fsnode where
  "two_subject_tree =
     Dir [(''00000'',
           Dir [(''FLAIR'', Dir [(''Image-1.dcm'', File example_slice)]),
                (''T1w'', Dir [(''Image-1.dcm'', File example_slice)]),
                (''T1wCE'', Dir [(''Image-1.dcm'', File blank_slice)]),
                (''T2w'', Dir [(''Image-1.dcm'', File example_slice)])]),
          (''README.txt'', File corrupt_slice),
          (''00002'',
           Dir [(''FLAIR'', Dir [(''Image-7.dcm'', File blank_slice)]),
                (''T1w'', Dir [(''Image-7.dcm'', File blank_slice)]),
                (''T1wCE'', Dir [(''Image-7.dcm'', File example_slice)]),
                (''T2w'', Dir [(''Image-7.dcm'', File blank_slice), (''Image-8.dcm'', File corrupt_slice)])])]"

section \<open>Dictionaries and the three records\<close>

lemma map_of_dict_merge:
  "distinct (map fst b) \<Longrightarrow> map_of (dict_merge a b) = map_of a ++ map_of b"
  unfolding dict_merge_def
proof (induction b arbitrary: a)
  case Nil
  then show ?case by simp
next
  case (Cons kv b)
  have notin: "map_of b (fst kv) = None"
    using Cons.prems by (simp add: map_of_eq_None_iff)
  have "map_of (fold (\<lambda>kv. AList.update (fst kv) (snd kv)) (kv # b) a)
        = map_of (AList.update (fst kv) (snd kv) a) ++ map_of b"
    using Cons.IH Cons.prems by simp
  also have "\<dots> = map_of a ++ map_of (kv # b)"
    using notin by (cases kv) (auto simp: AList.update_conv' fun_eq_iff map_add_def split: option.splits)
  finally show ?case .
qed

lemma cell_update: "cell (AList.update c v r) c = v"
  by (simp add: cell_def AList.update_conv')

lemma metadata_truthy:
  "truthy (fst (extract_dicom_metadata fs p)) = (fst (extract_dicom_metadata fs p) \<noteq> None)"
  by (cases "dcmread_header fs p") (simp_all add: extract_dicom_metadata_def)

lemma stats_truthy:
  "truthy (fst (extract_image_statistics fp fs p)) = (fst (extract_image_statistics fp fs p) \<noteq> None)"
  by (auto simp: extract_image_statistics_def Let_def split: sum.splits pixel_array.splits)

lemma glcm_truthy:
  "truthy (fst (extract_glcm_features fs p)) = (fst (extract_glcm_features fs p) \<noteq> None)"
  by (auto simp: extract_glcm_features_def Let_def split: sum.splits pixel_array.splits)

lemma metadata_keys_of:
  "fst (extract_dicom_metadata fs p) = Some d \<Longrightarrow> map fst d = metadata_keys @ [''DCMFileName'']"
  by (cases "dcmread_header fs p") (auto simp: extract_dicom_metadata_def metadata_keys_def)

lemma stats_keys:
  "fst (extract_image_statistics fp fs p) = Some d \<Longrightarrow>
   map fst d = [''MeanIntensity'', ''StdIntensity'', ''Entropy'']"
  by (auto simp: extract_image_statistics_def Let_def split: sum.splits pixel_array.splits)

lemma glcm_keys:
  "fst (extract_glcm_features fs p) = Some d \<Longrightarrow>
   map fst d = [''GLCM_Contrast'', ''GLCM_Correlation'', ''GLCM_Energy'', ''GLCM_Homogeneity'']"
  by (auto simp: extract_glcm_features_def Let_def split: sum.splits pixel_array.splits)

text \<open>The metadata extractor succeeds exactly when its read does; the texture extractor
  exactly when the array read is two-dimensional, and the statistics extractor succeeds
  then.\<close>

lemma metadata_succeeds:
  "(fst (extract_dicom_metadata fs p) \<noteq> None) = (\<exists>ds. dcmread_header fs p = Inr ds)"
  by (cases "dcmread_header fs p") (simp_all add: extract_dicom_metadata_def)

lemma stats_succeeds:
  "dcmread_pixel_array fs p = Inr (Image px) \<Longrightarrow> fst (extract_image_statistics fp fs p) \<noteq> None"
  by (simp add: extract_image_statistics_def Let_def)

lemma glcm_succeeds:
  "(fst (extract_glcm_features fs p) \<noteq> None) = (\<exists>px. dcmread_pixel_array fs p = Inr (Image px))"
  by (auto simp: extract_glcm_features_def Let_def split: sum.splits pixel_array.splits)

lemma all_succeed_reads:
  "all_succeed fp fs p =
     ((\<exists>ds. dcmread_header fs p = Inr ds) \<and> (\<exists>px. dcmread_pixel_array fs p = Inr (Image px)))"
  unfolding all_succeed_def metadata_succeeds glcm_succeeds
  using stats_succeeds by blast

text \<open>A read that raises makes the extractor log the path and the error and return the
  sentinel.\<close>

lemma extractors_contain_failures:
  "dcmread_header fs p = Inl e \<Longrightarrow>
     extract_dicom_metadata fs p = (None, [''Error reading '' @ path_str p @ '': '' @ e])"
  "dcmread_pixel_array fs p = Inl e \<Longrightarrow>
     extract_image_statistics fp fs p =
       (None, [''Error processing image data from '' @ path_str p @ '': '' @ e])"
  "dcmread_pixel_array fs p = Inl e \<Longrightarrow>
     extract_glcm_features fs p =
       (None, [''Error extracting GLCM features from '' @ path_str p @ '': '' @ e])"
  by (simp_all add: extract_dicom_metadata_def extract_image_statistics_def extract_glcm_features_def)

section \<open>The directory aggregator\<close>

lemma visit_file_data:
  "fst (visit_file fp fs rootdir f acc) =
     fst acc @ map (feature_row fp fs)
       (filter (all_succeed fp fs) (map (os_path_join rootdir) (filter (\<lambda>f. endswith f ''.dcm'') [f])))"
  by (simp add: visit_file_def Let_def metadata_truthy stats_truthy glcm_truthy all_succeed_def
      feature_row_def)

lemma inner_loop_data:
  "fst (fold (visit_file fp fs rootdir) files acc) =
     fst acc @ map (feature_row fp fs)
       (filter (all_succeed fp fs) (map (os_path_join rootdir) (filter (\<lambda>f. endswith f ''.dcm'') files)))"
proof (induction files arbitrary: acc)
  case Nil
  then show ?case by simp
next
  case (Cons f files)
  show ?case
    using visit_file_data [where fp = fp and fs = fs and rootdir = rootdir and f = f and acc = acc]
    by (simp add: Cons.IH)
qed

lemma outer_loop_data:
  "fst (fold (\<lambda>triple acc. fold (visit_file fp fs (fst triple)) (snd (snd triple)) acc) triples acc) =
     fst acc @ map (feature_row fp fs)
       (filter (all_succeed fp fs)
          (concat (map (\<lambda>triple. map (os_path_join (fst triple))
                              (filter (\<lambda>f. endswith f ''.dcm'') (snd (snd triple)))) triples)))"
proof (induction triples arbitrary: acc)
  case Nil
  then show ?case by simp
next
  case (Cons t ts)
  show ?case
    by (simp add: Cons.IH inner_loop_data)
qed

lemma directory_rows_eq:
  "rows (fst (process_dicom_directory fp fs directory)) =
     map (feature_row fp fs) (filter (all_succeed fp fs) (dcm_paths fs directory))"
  by (simp add: process_dicom_directory_def Let_def DataFrame_def outer_loop_data dcm_paths_def)

lemma feature_row_union:
  assumes "all_succeed fp fs p"
  shows "map_of (feature_row fp fs p) = record_union fp fs p"
proof -
  obtain s where s: "fst (extract_image_statistics fp fs p) = Some s"
    using assms by (auto simp: all_succeed_def)
  obtain g where g: "fst (extract_glcm_features fs p) = Some g"
    using assms by (auto simp: all_succeed_def)
  have ds: "distinct (map fst s)" using stats_keys [OF s] by simp
  have dg: "distinct (map fst g)" using glcm_keys [OF g] by simp
  show ?thesis
    by (simp add: feature_row_def record_union_def s g map_of_dict_merge ds dg)
qed

text \<open>
  C1. The table of a directory has one row for every file of the walk whose name ends in
  \<open>.dcm\<close> and for which all three extractors return a record, in the order of the walk,
  and no other row; the row of a file is the field-wise union of its three records; and
  when every such file succeeds, the table has as many rows as there are such files.
\<close>

theorem directory_table_rows:
  "rows (fst (process_dicom_directory fp fs directory)) =
     map (feature_row fp fs) (filter (all_succeed fp fs) (dcm_paths fs directory)) \<and>
   (\<forall>p. all_succeed fp fs p \<longrightarrow> map_of (feature_row fp fs p) = record_union fp fs p) \<and>
   (list_all (all_succeed fp fs) (dcm_paths fs directory) \<longrightarrow>
      length (rows (fst (process_dicom_directory fp fs directory))) = length (dcm_paths fs directory))"
proof (intro conjI allI impI)
  show r: "rows (fst (process_dicom_directory fp fs directory)) =
     map (feature_row fp fs) (filter (all_succeed fp fs) (dcm_paths fs directory))"
    by (rule directory_rows_eq)
  show "map_of (feature_row fp fs p) = record_union fp fs p" if "all_succeed fp fs p" for p
    using that by (rule feature_row_union)
  show "length (rows (fst (process_dicom_directory fp fs directory))) = length (dcm_paths fs directory)"
    if "list_all (all_succeed fp fs) (dcm_paths fs directory)"
  proof -
    have "filter (all_succeed fp fs) (dcm_paths fs directory) = dcm_paths fs directory"
      using that by (simp add: list_all_iff)
    then show ?thesis by (simp add: r)
  qed
qed

lemmas walk_simps = dcm_paths_def os_walk_def os_path_join_def endswith_def

lemmas read_simps = all_succeed_reads dcmread_header_def dcmread_pixel_array_def is_image_def
  example_slice_def blank_slice_def corrupt_slice_def multiframe_file_def

text \<open>In the T1w directory of the example subject two of the three files end in \<open>.dcm\<close>
  and one of the two is corrupt: one row. In its T2w directory the only file succeeds:
  as many rows as files.\<close>

theorem directory_table_rows_witness:
  "dcm_paths two_scan_tree [''00002'', ''T1w''] =
     [[''00002'', ''T1w'', ''Image-1.dcm''], [''00002'', ''T1w'', ''Image-2.dcm'']] \<and>
   length (rows (fst (process_dicom_directory exact_ops two_scan_tree [''00002'', ''T1w'']))) = 1 \<and>
   list_all (all_succeed exact_ops two_scan_tree) (dcm_paths two_scan_tree [''00002'', ''T2w'']) \<and>
   length (rows (fst (process_dicom_directory exact_ops two_scan_tree [''00002'', ''T2w'']))) = 1"
proof -
  have p1: "dcm_paths two_scan_tree [''00002'', ''T1w''] =
     [[''00002'', ''T1w'', ''Image-1.dcm''], [''00002'', ''T1w'', ''Image-2.dcm'']]"
    by (simp add: walk_simps two_scan_tree_def)
  have p2: "dcm_paths two_scan_tree [''00002'', ''T2w''] = [[''00002'', ''T2w'', ''Image-1.dcm'']]"
    by (simp add: walk_simps two_scan_tree_def)
  have a1: "all_succeed exact_ops two_scan_tree [''00002'', ''T1w'', ''Image-1.dcm'']"
    by (simp add: read_simps two_scan_tree_def)
  have a2: "\<not> all_succeed exact_ops two_scan_tree [''00002'', ''T1w'', ''Image-2.dcm'']"
    by (simp add: read_simps two_scan_tree_def)
  have a3: "all_succeed exact_ops two_scan_tree [''00002'', ''T2w'', ''Image-1.dcm'']"
    by (simp add: read_simps two_scan_tree_def)
  show ?thesis
    using directory_table_rows [where fp = exact_ops and fs = two_scan_tree and directory = "[''00002'', ''T1w'']"]
      directory_table_rows [where fp = exact_ops and fs = two_scan_tree and directory = "[''00002'', ''T2w'']"]
    by (simp add: p1 p2 a1 a2 a3)
qed

text \<open>
  C10. A record an extractor returns is never empty: the metadata record holds the key
  DCMFileName with the base name of the file, the statistics record has exactly its
  three keys and the texture record exactly its four. So the truthiness test that gates
  a row holds exactly when none of the three results is \<open>None\<close>.
\<close>

theorem records_nonempty:
  "(\<forall>d. fst (extract_dicom_metadata fs p) = Some d \<longrightarrow>
        d \<noteq> [] \<and> map_of d ''DCMFileName'' = Some (PyStr (os_path_basename p))) \<and>
   (\<forall>d. fst (extract_image_statistics fp fs p) = Some d \<longrightarrow>
        map fst d = [''MeanIntensity'', ''StdIntensity'', ''Entropy'']) \<and>
   (\<forall>d. fst (extract_glcm_features fs p) = Some d \<longrightarrow>
        map fst d = [''GLCM_Contrast'', ''GLCM_Correlation'', ''GLCM_Energy'', ''GLCM_Homogeneity'']) \<and>
   ((truthy (fst (extract_dicom_metadata fs p)) \<and> truthy (fst (extract_image_statistics fp fs p)) \<and>
     truthy (fst (extract_glcm_features fs p))) =
    (fst (extract_dicom_metadata fs p) \<noteq> None \<and> fst (extract_image_statistics fp fs p) \<noteq> None \<and>
     fst (extract_glcm_features fs p) \<noteq> None))"
proof (intro conjI allI impI)
  fix d assume m: "fst (extract_dicom_metadata fs p) = Some d"
  then show "d \<noteq> []"
    using metadata_keys_of [OF m] by auto
  show "map_of d ''DCMFileName'' = Some (PyStr (os_path_basename p))"
    using m by (cases "dcmread_header fs p") (auto simp: extract_dicom_metadata_def metadata_keys_def)
next
  fix d assume "fst (extract_image_statistics fp fs p) = Some d"
  then show "map fst d = [''MeanIntensity'', ''StdIntensity'', ''Entropy'']"
    by (rule stats_keys)
next
  fix d assume "fst (extract_glcm_features fs p) = Some d"
  then show "map fst d = [''GLCM_Contrast'', ''GLCM_Correlation'', ''GLCM_Energy'', ''GLCM_Homogeneity'']"
    by (rule glcm_keys)
next
  show "(truthy (fst (extract_dicom_metadata fs p)) \<and> truthy (fst (extract_image_statistics fp fs p)) \<and>
     truthy (fst (extract_glcm_features fs p))) =
    (fst (extract_dicom_metadata fs p) \<noteq> None \<and> fst (extract_image_statistics fp fs p) \<noteq> None \<and>
     fst (extract_glcm_features fs p) \<noteq> None)"
    by (simp only: metadata_truthy stats_truthy glcm_truthy)
qed

text \<open>The three records of the T2w file of the example subject.\<close>

theorem records_nonempty_witness:
  "(\<exists>d. fst (extract_dicom_metadata two_scan_tree [''00002'', ''T2w'', ''Image-1.dcm'']) = Some d \<and>
        map_of d ''DCMFileName'' = Some (PyStr ''Image-1.dcm'')) \<and>
   (\<exists>d. fst (extract_image_statistics exact_ops two_scan_tree [''00002'', ''T2w'', ''Image-1.dcm'']) = Some d \<and>
        map fst d = [''MeanIntensity'', ''StdIntensity'', ''Entropy'']) \<and>
   (\<exists>d. fst (extract_glcm_features two_scan_tree [''00002'', ''T2w'', ''Image-1.dcm'']) = Some d \<and>
        map fst d = [''GLCM_Contrast'', ''GLCM_Correlation'', ''GLCM_Energy'', ''GLCM_Homogeneity'']) \<and>
   truthy (fst (extract_dicom_metadata two_scan_tree [''00002'', ''T2w'', ''Image-1.dcm''])) \<and>
   truthy (fst (extract_image_statistics exact_ops two_scan_tree [''00002'', ''T2w'', ''Image-1.dcm''])) \<and>
   truthy (fst (extract_glcm_features two_scan_tree [''00002'', ''T2w'', ''Image-1.dcm'']))"
proof -
  let ?p = "[''00002'', ''T2w'', ''Image-1.dcm'']"
  have a: "all_succeed exact_ops two_scan_tree ?p"
    by (simp add: read_simps two_scan_tree_def)
  then obtain m s g where
    m: "fst (extract_dicom_metadata two_scan_tree ?p) = Some m" and
    s: "fst (extract_image_statistics exact_ops two_scan_tree ?p) = Some s" and
    g: "fst (extract_glcm_features two_scan_tree ?p) = Some g"
    by (auto simp: all_succeed_def)
  show ?thesis
    using records_nonempty [where fp = exact_ops and fs = two_scan_tree and p = ?p] m s g
    by (simp add: os_path_basename_def)
qed

section \<open>The metadata extractor\<close>

text \<open>
  C5. When the header of a file reads, the metadata record has exactly the thirteen keys
  of the fixed list, in order: the twelve header keywords (PixelSpacing is one key, whose
  value holds the two spacing components) and DCMFileName. A keyword the header lacks
  is mapped to \<open>None\<close>, not left out; a keyword it has is mapped to its value; DCMFileName
  is the base name of the path. Nothing is logged.
\<close>

theorem metadata_record:
  "dcmread_header fs p = Inr ds \<Longrightarrow>
   \<exists>d. extract_dicom_metadata fs p = (Some d, []) \<and>
       map fst d =
         [''PatientID'', ''StudyDate'', ''Modality'', ''Manufacturer'', ''MagneticFieldStrength'',
          ''SliceThickness'', ''PixelSpacing'', ''ImageType'', ''BodyPartExamined'',
          ''ContrastBolusAgent'', ''RepetitionTime'', ''EchoTime'', ''DCMFileName''] \<and>
       (\<forall>k\<in>set metadata_keys.
          map_of d k = Some (case map_of ds k of None \<Rightarrow> PyNone | Some v \<Rightarrow> v)) \<and>
       map_of d ''DCMFileName'' = Some (PyStr (os_path_basename p))"
  by (simp add: extract_dicom_metadata_def metadata_keys_def getattr_or_none_def)

text \<open>The example slice has a patient identifier and a pixel spacing and no study date.\<close>

theorem metadata_record_witness:
  "\<exists>d. extract_dicom_metadata (one_subject_tree example_slice) [''00000'', ''FLAIR'', ''Image-1.dcm'']
         = (Some d, []) \<and>
       map_of d ''PatientID'' = Some (PyStr ''00000'') \<and>
       map_of d ''StudyDate'' = Some PyNone \<and>
       map_of d ''PixelSpacing'' = Some (PyMulti [PyFloat 1, PyFloat 1]) \<and>
       map_of d ''DCMFileName'' = Some (PyStr ''Image-1.dcm'')"
proof -
  have rd: "dcmread_header (one_subject_tree example_slice) [''00000'', ''FLAIR'', ''Image-1.dcm''] =
      Inr [(''PatientID'', PyStr ''00000''), (''Modality'', PyStr ''MR''),
           (''PixelSpacing'', PyMulti [PyFloat 1, PyFloat 1])]"
    by (simp add: dcmread_header_def one_subject_tree_def example_slice_def)
  show ?thesis
    using metadata_record [OF rd]
    by (auto simp: metadata_keys_def os_path_basename_def)
qed

section \<open>The subject aggregator\<close>

lemma subject_loop_tables:
  "fst (fold (visit_scan_type fp fs sp) sts acc) =
     fst acc @ map (scan_table fp fs sp) (filter (\<lambda>st. os_path_exists fs (os_path_join sp st)) sts)"
proof (induction sts arbitrary: acc)
  case Nil
  then show ?case by simp
next
  case (Cons st sts)
  have step: "fst (visit_scan_type fp fs sp st acc) =
      fst acc @ map (scan_table fp fs sp) (filter (\<lambda>st. os_path_exists fs (os_path_join sp st)) [st])"
    by (simp add: visit_scan_type_def scan_table_def Let_def)
  show ?case
    by (simp add: Cons.IH step)
qed

lemma process_subject_tables:
  "fst (process_subject fp self fs sp) = map (scan_table fp fs sp) (present_scan_types self fs sp)"
  by (simp add: process_subject_def subject_loop_tables present_scan_types_def)

lemma scan_table_rows:
  "length (rows (scan_table fp fs sp st)) =
     length (rows (fst (process_dicom_directory fp fs (os_path_join sp st))))"
  by (simp add: scan_table_def Let_def set_column_def)

lemma scan_table_label:
  "''ScanType'' \<in> set (columns (scan_table fp fs sp st)) \<and>
   get_column (scan_table fp fs sp st) ''ScanType'' =
     Inr (replicate (length (rows (scan_table fp fs sp st))) (PyStr st))"
  by (simp add: scan_table_def Let_def set_column_def get_column_def cell_update map_replicate_const
      o_def)

text \<open>
  C4. The list \<open>process_subject\<close> returns holds one frame for each of the scan types, taken
  in the order FLAIR, T1w, T1wCE, T2w, whose path exists under the subject path
  (\<open>os.path.exists\<close> is the test the code makes), and nothing for the others: its
  length is the number of those scan types, at most four. Each frame has a ScanType
  column that holds, in every row, the scan type whose directory produced it, and as
  many rows as the table of that directory.
\<close>

theorem process_subject_result:
  "fst (process_subject fp (init_DICOMProcessor rootdir nw) fs sp) =
     map (scan_table fp fs sp)
       (filter (\<lambda>st. os_path_exists fs (os_path_join sp st)) [''FLAIR'', ''T1w'', ''T1wCE'', ''T2w'']) \<and>
   length (fst (process_subject fp (init_DICOMProcessor rootdir nw) fs sp)) =
     length (filter (\<lambda>st. os_path_exists fs (os_path_join sp st)) [''FLAIR'', ''T1w'', ''T1wCE'', ''T2w'']) \<and>
   length (fst (process_subject fp (init_DICOMProcessor rootdir nw) fs sp)) \<le> 4 \<and>
   (\<forall>st. ''ScanType'' \<in> set (columns (scan_table fp fs sp st)) \<and>
         get_column (scan_table fp fs sp st) ''ScanType'' =
           Inr (replicate (length (rows (scan_table fp fs sp st))) (PyStr st)) \<and>
         length (rows (scan_table fp fs sp st)) =
           length (rows (fst (process_dicom_directory fp fs (os_path_join sp st)))))"
proof -
  let ?present = "filter (\<lambda>st. os_path_exists fs (os_path_join sp st)) [''FLAIR'', ''T1w'', ''T1wCE'', ''T2w'']"
  have p: "present_scan_types (init_DICOMProcessor rootdir nw) fs sp = ?present"
    by (simp only: present_scan_types_def init_DICOMProcessor_def DICOMProcessor.simps)
  have a: "fst (process_subject fp (init_DICOMProcessor rootdir nw) fs sp) = map (scan_table fp fs sp) ?present"
    by (simp only: process_subject_tables p)
  have b: "length ?present \<le> length [''FLAIR'', ''T1w'', ''T1wCE'', ''T2w'']"
    by (rule length_filter_le)
  have c: "length (fst (process_subject fp (init_DICOMProcessor rootdir nw) fs sp)) = length ?present"
    by (simp only: a length_map)
  have d: "length (fst (process_subject fp (init_DICOMProcessor rootdir nw) fs sp)) \<le> 4"
    using b by (simp only: c) simp
  show ?thesis
    using a c d scan_table_label scan_table_rows by blast
qed

text \<open>The example subject has T1w and T2w only: two frames, labelled T1w and T2w, with
  one row each.\<close>

theorem process_subject_result_witness:
  "map (\<lambda>t. get_column t ''ScanType'')
       (fst (process_subject exact_ops (init_DICOMProcessor [] 4) two_scan_tree [''00002''])) =
     [Inr [PyStr ''T1w''], Inr [PyStr ''T2w'']]"
proof -
  have e: "filter (\<lambda>st. os_path_exists two_scan_tree (os_path_join [''00002''] st))
             [''FLAIR'', ''T1w'', ''T1wCE'', ''T2w''] = [''T1w'', ''T2w'']"
    by (simp add: os_path_exists_def os_path_join_def two_scan_tree_def)
  have r1: "length (rows (fst (process_dicom_directory exact_ops two_scan_tree (os_path_join [''00002''] ''T1w'')))) = 1"
    by (simp add: directory_rows_eq walk_simps read_simps two_scan_tree_def)
  have r2: "length (rows (fst (process_dicom_directory exact_ops two_scan_tree (os_path_join [''00002''] ''T2w'')))) = 1"
    by (simp add: directory_rows_eq walk_simps read_simps two_scan_tree_def)
  show ?thesis
    using process_subject_result [where fp = exact_ops and rootdir = "[]" and nw = 4 and fs = two_scan_tree
        and sp = "[''00002'']", unfolded e] r1 r2
    by simp
qed

section \<open>The statistics extractor\<close>



lemma rescaled_buffer_unfold:
  "rescaled_buffer fp px =
     (let src = concat (map (map (\<lambda>x. to_single fp (real_of_int x))) px);
          scale = minmax_scale fp (Min (set src)) (Max (set src)) 0 255;
          shift = minmax_shift fp (Min (set src)) scale 0
      in map (map (\<lambda>x. float_to_uint8 (scale_shift fp (to_single fp (real_of_int x)) scale shift))) px)"
  by (simp add: rescaled_buffer_def cv2_normalize_minmax_def Let_def o_def)




























lemma rescale_min: "rescale_sample lo hi lo = 0"
  by (simp add: rescale_sample_def)

lemma list_all2_map_right: "list_all2 P xs (map f xs) = list_all (\<lambda>x. P x (f x)) xs"
  by (induction xs) simp_all





text \<open>
  The rounding matters for the greatest sample. In the buffer \<open>[[0, 7]]\<close> the scale is
  \<open>255 / 7\<close>, which single precision rounds down to \<open>9549531 / 262144\<close>; 7 times that is
  rounded to \<open>16711679 / 65536\<close>, just below 255, and the truncation gives 254.
\<close>

lemma single_precision_maximum:
  assumes r: "rounds_zero fp"
    and e: "to_single fp 7 = 7" "to_double fp 7 = 7" "to_double fp 255 = 255"
    and s: "to_single fp (to_double fp (255 * to_double fp (1 / 7))) = 9549531 / 262144"
    and m: "to_single fp (7 * (9549531 / 262144)) = 16711679 / 65536"
      "to_single fp (16711679 / 65536) = 16711679 / 65536"
  shows "rescaled_buffer fp [[0, 7]] = [[0, 254]]"
proof -
  have z: "to_single fp 0 = 0" "to_double fp 0 = 0"
    using r by (simp_all add: rounds_zero_def)
  have scale: "minmax_scale fp 0 7 0 255 = 9549531 / 262144"
    by (simp add: minmax_scale_def e s dbl_epsilon_def)
  have shift: "minmax_shift fp 0 (9549531 / 262144) 0 = 0"
    by (simp add: minmax_shift_def z)
  have lo: "scale_shift fp 0 (9549531 / 262144) 0 = 0"
    using r [unfolded rounds_zero_def, THEN conjunct2, THEN conjunct2, rule_format,
        of 0 "9549531 / 262144" 0]
    by (auto simp: z)
  have "scale_shift fp 7 (9549531 / 262144) 0 = to_single fp (7 * (9549531 / 262144) + 0) \<or>
        scale_shift fp 7 (9549531 / 262144) 0 = to_single fp (to_single fp (7 * (9549531 / 262144)) + 0)"
    using r unfolding rounds_zero_def by blast
  then have hi: "scale_shift fp 7 (9549531 / 262144) 0 = 16711679 / 65536"
    by (elim disjE) (simp_all only: add_0_right m)
  have "float_to_uint8 (16711679 / 65536) = 254"
    by (simp add: float_to_uint8_def)
  then show ?thesis
    by (simp add: rescaled_buffer_unfold z e scale shift lo hi float_to_uint8_def)
qed




section \<open>The texture extractor\<close>

text \<open>The matrix \<open>graycomatrix\<close> builds for distance 1 and angle 0 counts the pairs of a
  sample and its right neighbour.\<close>

lemma length_filter_concat:
  "length (filter Q (concat xss)) = (\<Sum>xs\<leftarrow>xss. length (filter Q xs))"
  by (induction xss) simp_all

lemma count_list_concat:
  "count_list (concat xss) x = (\<Sum>xs\<leftarrow>xss. count_list xs x)"
  by (induction xss) simp_all

lemma count_list_nth:
  "count_list xs x = length (filter (\<lambda>k. xs ! k = x) [0..<length xs])"
proof (induction xs rule: rev_induct)
  case Nil
  then show ?case by simp
next
  case (snoc a xs)
  have "filter (\<lambda>k. (xs @ [a]) ! k = x) [0..<length xs] = filter (\<lambda>k. xs ! k = x) [0..<length xs]"
    by (rule filter_cong) (simp_all add: nth_append)
  then show ?case
    using snoc.IH by (simp add: nth_append)
qed

lemma filter_upt_Suc_bound:
  "length (filter (\<lambda>c. A c \<and> Suc c < n \<and> B c) [0..<n]) =
   length (filter (\<lambda>c. A c \<and> B c) [0..<n - 1])"
proof (cases n)
  case 0
  then show ?thesis by simp
next
  case (Suc m)
  have "filter (\<lambda>c. A c \<and> Suc c < Suc m \<and> B c) [0..<m] = filter (\<lambda>c. A c \<and> B c) [0..<m]"
    by (rule filter_cong) simp_all
  then show ?thesis using Suc by simp
qed

lemma row_count:
  "length (filter (\<lambda>c. row ! c = i \<and> Suc c < length row \<and> row ! Suc c = j) [0..<length row]) =
   count_list (adjacent_pairs row) (i, j)"
proof -
  have len: "length (adjacent_pairs row) = length row - 1"
    by (simp add: adjacent_pairs_def)
  have "filter (\<lambda>k. adjacent_pairs row ! k = (i, j)) [0..<length row - 1] =
        filter (\<lambda>c. row ! c = i \<and> row ! Suc c = j) [0..<length row - 1]"
    by (rule filter_cong) (auto simp: adjacent_pairs_def nth_tl)
  then show ?thesis
    by (simp add: count_list_nth len filter_upt_Suc_bound)
qed

lemma pixel_at_inside:
  "r < length img \<Longrightarrow> c < length (img ! r) \<Longrightarrow> pixel_at img (int r) (int c) = Some (img ! r ! c)"
  by (simp add: pixel_at_def)

lemma pixel_at_right:
  "r < length img \<Longrightarrow>
   pixel_at img (int r) (int c + 1) =
     (if Suc c < length (img ! r) then Some (img ! r ! Suc c) else None)"
  by (auto simp: pixel_at_def nat_add_distrib)

lemma glcm_count_pairs:
  assumes "i < 256" "j < 256"
  shows "glcm_count img 0 1 256 i j = pair_count img i j"
proof -
  let ?Q = "\<lambda>rc. i < (256::nat) \<and> j < (256::nat) \<and> pixel_at img (fst rc) (snd rc) = Some i \<and>
                 pixel_at img (fst rc) (snd rc + 1) = Some j"
  have row: "length (filter (\<lambda>c. ?Q (int r, int c)) [0..<length (img ! r)]) =
             count_list (adjacent_pairs (img ! r)) (i, j)" if "r < length img" for r
  proof -
    have "filter (\<lambda>c. ?Q (int r, int c)) [0..<length (img ! r)] =
          filter (\<lambda>c. img ! r ! c = i \<and> Suc c < length (img ! r) \<and> img ! r ! Suc c = j)
            [0..<length (img ! r)]"
      by (rule filter_cong)
        (use that assms in \<open>auto simp: pixel_at_inside pixel_at_right split: if_splits\<close>)
    then show ?thesis
      by (simp only: row_count)
  qed
  have "glcm_count img 0 1 256 i j =
        (\<Sum>r\<leftarrow>[0..<length img]. length (filter (\<lambda>c. ?Q (int r, int c)) [0..<length (img ! r)]))"
    by (simp add: glcm_count_def positions_def length_filter_concat filter_map o_def)
  also have "\<dots> = (\<Sum>r\<leftarrow>[0..<length img]. count_list (adjacent_pairs (img ! r)) (i, j))"
    by (rule arg_cong [where f = sum_list]) (rule map_cong, simp, simp only: row set_upt atLeastLessThan_iff)
  also have "\<dots> = (\<Sum>row\<leftarrow>img. count_list (adjacent_pairs row) (i, j))"
  proof -
    have "map (\<lambda>r. count_list (adjacent_pairs (img ! r)) (i, j)) [0..<length img] =
          map (\<lambda>row. count_list (adjacent_pairs row) (i, j)) (map ((!) img) [0..<length img])"
      by (simp only: map_map o_def)
    then show ?thesis
      by (simp only: map_nth)
  qed
  finally show ?thesis
    by (simp add: pair_count_def count_list_concat o_def)
qed

lemma adjacent_pairs_members:
  "(i, j) \<in> set (adjacent_pairs row) \<Longrightarrow> i \<in> set row \<and> j \<in> set row"
  unfolding adjacent_pairs_def
  by (cases row) (auto dest: set_zip_leftD set_zip_rightD)

lemma pairs_in_range:
  assumes "list_all (list_all (\<lambda>v. v < n)) img" "(i, j) \<in> set (concat (map adjacent_pairs img))"
  shows "i < n \<and> j < n"
proof -
  from assms(2) obtain row where r: "row \<in> set img" "(i, j) \<in> set (adjacent_pairs row)"
    by auto
  from adjacent_pairs_members [OF r(2)] assms(1) r(1) show ?thesis
    by (auto simp: list_all_iff)
qed

lemma glcm_count_is_pair_count:
  assumes "list_all (list_all (\<lambda>v. v < 256)) img"
  shows "glcm_count img 0 1 256 i j = pair_count img i j"
proof (cases "i < 256 \<and> j < 256")
  case True
  then show ?thesis by (simp add: glcm_count_pairs)
next
  case False
  then have "(i, j) \<notin> set (concat (map adjacent_pairs img))"
    using pairs_in_range [OF assms, of i j] by blast
  then have "pair_count img i j = 0"
    by (simp add: pair_count_def del: set_concat)
  moreover have "glcm_count img 0 1 256 i j = 0"
    using False by (auto simp: glcm_count_def)
  ultimately show ?thesis by simp
qed

lemma indicator_total:
  fixes a b n :: nat
  assumes "a < n" "b < n"
  shows "(\<Sum>i<n. \<Sum>j<n. (if (a, b) = (i, j) then 1 else 0 :: real)) = 1"
proof -
  have "(\<Sum>i<n. \<Sum>j<n. (if (a, b) = (i, j) then 1 else 0 :: real)) =
        (\<Sum>i<n. if i = a then (\<Sum>j<n. if j = b then 1 else 0 :: real) else 0)"
    by (intro sum.cong refl) auto
  also have "\<dots> = 1"
    using assms by simp
  finally show ?thesis .
qed

lemma count_total:
  fixes ps :: "(nat \<times> nat) list"
  assumes "list_all (\<lambda>p. fst p < n \<and> snd p < n) ps"
  shows "(\<Sum>i<n. \<Sum>j<n. real (count_list ps (i, j))) = real (length ps)"
  using assms
proof (induction ps)
  case Nil
  then show ?case by simp
next
  case (Cons p ps)
  obtain a b where p: "p = (a, b)" by (cases p)
  have ab: "a < n" "b < n" using Cons.prems p by simp_all
  have "(\<Sum>i<n. \<Sum>j<n. real (count_list (p # ps) (i, j))) =
        (\<Sum>i<n. \<Sum>j<n. real (count_list ps (i, j)) + (if (a, b) = (i, j) then 1 else 0))"
    unfolding p by (intro sum.cong refl) simp
  also have "\<dots> = (\<Sum>i<n. \<Sum>j<n. real (count_list ps (i, j))) +
                   (\<Sum>i<n. \<Sum>j<n. (if (a, b) = (i, j) then 1 else 0 :: real))"
    by (simp only: sum.distrib)
  also have "\<dots> = real (length ps) + 1"
    using Cons.IH Cons.prems by (simp only: indicator_total [OF ab]) simp
  finally show ?case by simp
qed

lemma matrix_sum_eq: "matrix_sum n f = (\<Sum>i<n. \<Sum>j<n. f i j)"
  by (simp only: matrix_sum_def interv_sum_list_conv_sum_set_nat set_upt atLeast0LessThan)

lemma symmetric_total:
  assumes "list_all (list_all (\<lambda>v. v < 256)) img"
  shows "matrix_sum 256 (\<lambda>i j. real (pair_count img i j) + real (pair_count img j i)) =
         2 * real (length (concat (map adjacent_pairs img)))"
proof -
  let ?ps = "concat (map adjacent_pairs img)"
  have r: "list_all (\<lambda>p. fst p < 256 \<and> snd p < 256) ?ps"
    unfolding list_all_iff using pairs_in_range [OF assms] by (auto simp del: set_concat)
  have t: "(\<Sum>i<256. \<Sum>j<256. real (pair_count img i j)) = real (length ?ps)"
    unfolding pair_count_def by (rule count_total [OF r])
  have "(\<Sum>i<256. \<Sum>j<256. real (pair_count img j i)) = (\<Sum>j<256. \<Sum>i<256. real (pair_count img j i))"
    by (rule sum.swap)
  then have t': "(\<Sum>i<256. \<Sum>j<256. real (pair_count img j i)) = real (length ?ps)"
    using t by simp
  show ?thesis
    unfolding matrix_sum_eq sum.distrib t t' by simp
qed

lemma normalized_counts:
  assumes "list_all (list_all (\<lambda>v. v < 256)) img"
  shows "normalize_matrix 256 (\<lambda>i j. real (glcm_count img 0 1 256 i j) + real (glcm_count img 0 1 256 j i)) =
         cooccurrence img"
proof -
  have "normalize_matrix 256 (\<lambda>i j. real (pair_count img i j) + real (pair_count img j i)) i j =
        cooccurrence img i j" for i j
    unfolding normalize_matrix_def Let_def symmetric_total [OF assms] cooccurrence_def
    by simp
  then show ?thesis
    unfolding glcm_count_is_pair_count [OF assms] by (intro ext)
qed

lemma graycomatrix_cooccurrence:
  assumes "list_all (list_all (\<lambda>v. v < 256)) img"
  shows "graycomatrix img [1] [0] 256 True True = \<lparr>glcm_levels = 256, glcm_P = [[cooccurrence img]]\<rparr>"
  using normalized_counts [OF assms] by (simp add: graycomatrix_def Let_def)

lemma matrix_sum_divide: "matrix_sum n (\<lambda>i j. P i j / c) = matrix_sum n P / c"
  by (simp only: matrix_sum_eq sum_divide_distrib)

lemma matrix_sum_normalize:
  "matrix_sum n (normalize_matrix n P) = (if matrix_sum n P = 0 then 0 else 1)"
  by (simp add: normalize_matrix_def Let_def matrix_sum_divide)

lemma normalize_matrix_idem:
  "normalize_matrix n (normalize_matrix n P) = normalize_matrix n P"
proof -
  have "normalize_matrix n (normalize_matrix n P) =
        (\<lambda>i j. normalize_matrix n P i j /
           (if matrix_sum n (normalize_matrix n P) = 0 then 1 else matrix_sum n (normalize_matrix n P)))"
    by (simp add: normalize_matrix_def [of n "normalize_matrix n P"] Let_def)
  also have "\<dots> = normalize_matrix n P"
    by (simp add: matrix_sum_normalize)
  finally show ?thesis .
qed

lemma texture_prop:
  assumes "list_all (list_all (\<lambda>v. v < 256)) img"
  shows "at00 (graycoprops (graycomatrix img [1] [0] 256 True True) prop) =
         glcm_property prop 256 (cooccurrence img)"
proof -
  have "normalize_matrix 256 (cooccurrence img) = cooccurrence img"
    unfolding normalized_counts [OF assms, symmetric] by (rule normalize_matrix_idem)
  then show ?thesis
    unfolding graycomatrix_cooccurrence [OF assms] graycoprops_def at00_def by simp
qed

lemma glcm_property_in_words:
  "glcm_property Contrast 256 P = contrast_of P"
  "glcm_property Homogeneity 256 P = homogeneity_of P"
  "glcm_property Energy 256 P = energy_of P"
  "glcm_property Correlation 256 P = correlation_of P"
  by (simp_all add: matrix_sum_eq contrast_of_def homogeneity_of_def energy_of_def correlation_of_def
      weighted_sum_def power2_eq_square mult.commute Let_def)

lemma int_to_uint8_lt: "int_to_uint8 x < 256"
  by (simp add: int_to_uint8_def)

lemma cast_is_8bit: "list_all (list_all (\<lambda>v. v < 256)) (map (map int_to_uint8) px)"
  by (simp add: list_all_iff int_to_uint8_lt)

lemma cooccurrence_sym: "cooccurrence img i j = cooccurrence img j i"
  by (simp add: cooccurrence_def add.commute)

lemma cooccurrence_total:
  assumes "list_all (list_all (\<lambda>v. v < 256)) img"
  shows "(\<Sum>i<256. \<Sum>j<256. cooccurrence img i j) =
         (if concat (map adjacent_pairs img) = [] then 0 else 1)"
proof -
  have "matrix_sum 256 (cooccurrence img) =
        (if matrix_sum 256 (\<lambda>i j. real (glcm_count img 0 1 256 i j) + real (glcm_count img 0 1 256 j i)) = 0
         then 0 else 1)"
    unfolding normalized_counts [OF assms, symmetric] by (rule matrix_sum_normalize)
  then have "matrix_sum 256 (cooccurrence img) =
        (if 2 * real (length (concat (map adjacent_pairs img))) = 0 then 0 else 1)"
    unfolding glcm_count_is_pair_count [OF assms] symmetric_total [OF assms] .
  then show ?thesis
    unfolding matrix_sum_eq by (cases "concat (map adjacent_pairs img)") simp_all
qed

text \<open>The matrix of the example slice after the cast, \<open>[[0, 3], [7, 44]]\<close>, has four entries
  of \<open>1 / 4\<close>.\<close>

lemma weighted_sum_support:
  assumes "distinct S" "list_all (\<lambda>p. fst p < 256 \<and> snd p < 256) S"
    "\<And>i j. (i, j) \<notin> set S \<Longrightarrow> P i j = 0"
  shows "weighted_sum P f = (\<Sum>p\<leftarrow>S. P (fst p) (snd p) * f (fst p) (snd p))"
proof -
  have "weighted_sum P f = (\<Sum>p\<in>{..<256} \<times> {..<256}. P (fst p) (snd p) * f (fst p) (snd p))"
    by (simp add: weighted_sum_def sum.cartesian_product case_prod_unfold)
  also have "\<dots> = (\<Sum>p\<in>set S. P (fst p) (snd p) * f (fst p) (snd p))"
  proof (rule sum.mono_neutral_right)
    show "finite ({..<256::nat} \<times> {..<256::nat})" by simp
    show "set S \<subseteq> {..<256} \<times> {..<256}"
      using assms(2) by (auto simp: list_all_iff)
    show "\<forall>p\<in>{..<256} \<times> {..<256} - set S. P (fst p) (snd p) * f (fst p) (snd p) = 0"
      using assms(3) by auto
  qed
  also have "\<dots> = (\<Sum>p\<leftarrow>S. P (fst p) (snd p) * f (fst p) (snd p))"
    using assms(1) by (simp only: sum_list_distinct_conv_sum_set)
  finally show ?thesis .
qed

lemma example_matrix:
  "cooccurrence [[0, 3], [7, 44]] i j =
     (if (i, j) \<in> {(0, 3), (3, 0), (7, 44), (44, 7)} then 1 / 4 else 0)"
  by (auto simp: cooccurrence_def pair_count_def adjacent_pairs_def)

lemma example_weighted_sum:
  "weighted_sum (cooccurrence [[0, 3], [7, 44]]) f = (f 0 3 + f 3 0 + f 7 44 + f 44 7) / 4"
proof -
  have "weighted_sum (cooccurrence [[0, 3], [7, 44]]) f =
        (\<Sum>p\<leftarrow>[(0, 3), (3, 0), (7, 44), (44, 7)].
           cooccurrence [[0, 3], [7, 44]] (fst p) (snd p) * f (fst p) (snd p))"
    by (rule weighted_sum_support) (simp_all add: example_matrix)
  then show ?thesis
    by (simp add: example_matrix)
qed

lemma example_properties:
  "contrast_of (cooccurrence [[0, 3], [7, 44]]) = 689"
  "homogeneity_of (cooccurrence [[0, 3], [7, 44]]) = 69 / 1370"
  "energy_of (cooccurrence [[0, 3], [7, 44]]) = 1 / 2"
  "correlation_of (cooccurrence [[0, 3], [7, 44]]) = - (113 / 1265)"
proof -
  show "contrast_of (cooccurrence [[0, 3], [7, 44]]) = 689"
    by (simp add: contrast_of_def example_weighted_sum)
  show "homogeneity_of (cooccurrence [[0, 3], [7, 44]]) = 69 / 1370"
    by (simp add: homogeneity_of_def example_weighted_sum)
  have "sqrt (1 / 4) = 1 / 2"
    by (rule real_sqrt_unique) (simp_all add: power2_eq_square)
  then show "energy_of (cooccurrence [[0, 3], [7, 44]]) = 1 / 2"
    by (simp add: energy_of_def example_weighted_sum example_matrix)
  have m: "weighted_sum (cooccurrence [[0, 3], [7, 44]]) (\<lambda>i j. real i) = 27 / 2"
    "weighted_sum (cooccurrence [[0, 3], [7, 44]]) (\<lambda>i j. real j) = 27 / 2"
    by (simp_all add: example_weighted_sum)
  have v: "weighted_sum (cooccurrence [[0, 3], [7, 44]]) (\<lambda>i j. (real i - 27 / 2)\<^sup>2) = 1265 / 4"
    "weighted_sum (cooccurrence [[0, 3], [7, 44]]) (\<lambda>i j. (real j - 27 / 2)\<^sup>2) = 1265 / 4"
    by (simp_all add: example_weighted_sum power2_eq_square)
  have c: "weighted_sum (cooccurrence [[0, 3], [7, 44]]) (\<lambda>i j. (real i - 27 / 2) * (real j - 27 / 2)) =
           - (113 / 4)"
    by (simp add: example_weighted_sum)
  have one: "1 \<le> sqrt (1265 / 4)"
    by (rule real_sqrt_ge_one) simp
  have "(1::real) / 10 ^ 15 < 1"
    by simp
  with one have big: "\<not> sqrt (1265 / 4) < 1 / 10 ^ 15"
    by linarith
  have sq: "sqrt (1265 / 4) * sqrt (1265 / 4) = 1265 / 4"
    by simp
  show "correlation_of (cooccurrence [[0, 3], [7, 44]]) = - (113 / 1265)"
    unfolding correlation_of_def Let_def m v c sq using big by simp
qed

text \<open>
  C8, as the code has it. When the pixel data of a file reads as a two-dimensional
  array, nothing is logged and the texture record has exactly the four keys
  GLCM_Contrast, GLCM_Correlation, GLCM_Energy and GLCM_Homogeneity, holding the
  contrast, the correlation, the energy and the homogeneity of one matrix: the
  co-occurrence matrix of the samples cast to 8 bits (each sample modulo 256, with no
  rescaling before), which counts every pair of a sample and its right neighbour in the
  same row (distance 1, angle 0) in both directions, over 256 levels, and divides by
  the number of counted pairs. The matrix is symmetric and its entries sum to 1 (to 0
  when no sample has a right neighbour). Floating-point numbers are read as reals.
\<close>

theorem texture_record:
  assumes "dcmread_pixel_array fs p = Inr (Image px)"
  shows "extract_glcm_features fs p =
           (Some [(''GLCM_Contrast'',
                     PyFloat (contrast_of (cooccurrence (map (map (\<lambda>x. nat (x mod 256))) px)))),
                  (''GLCM_Correlation'',
                     PyFloat (correlation_of (cooccurrence (map (map (\<lambda>x. nat (x mod 256))) px)))),
                  (''GLCM_Energy'',
                     PyFloat (energy_of (cooccurrence (map (map (\<lambda>x. nat (x mod 256))) px)))),
                  (''GLCM_Homogeneity'',
                     PyFloat (homogeneity_of (cooccurrence (map (map (\<lambda>x. nat (x mod 256))) px))))],
            []) \<and>
         (\<forall>i j. cooccurrence (map (map (\<lambda>x. nat (x mod 256))) px) i j =
                cooccurrence (map (map (\<lambda>x. nat (x mod 256))) px) j i) \<and>
         (\<Sum>i<256. \<Sum>j<256. cooccurrence (map (map (\<lambda>x. nat (x mod 256))) px) i j) =
           (if concat (map adjacent_pairs (map (map (\<lambda>x. nat (x mod 256))) px)) = [] then 0 else 1)"
proof -
  have cast: "map (map int_to_uint8) px = map (map (\<lambda>x. nat (x mod 256))) px"
    by (simp add: int_to_uint8_def [abs_def])
  have bits: "list_all (list_all (\<lambda>v. v < 256)) (map (map (\<lambda>x. nat (x mod 256))) px)"
    using cast_is_8bit [of px] by (simp only: cast)
  have "extract_glcm_features fs p =
           (Some [(''GLCM_Contrast'',
                     PyFloat (contrast_of (cooccurrence (map (map (\<lambda>x. nat (x mod 256))) px)))),
                  (''GLCM_Correlation'',
                     PyFloat (correlation_of (cooccurrence (map (map (\<lambda>x. nat (x mod 256))) px)))),
                  (''GLCM_Energy'',
                     PyFloat (energy_of (cooccurrence (map (map (\<lambda>x. nat (x mod 256))) px)))),
                  (''GLCM_Homogeneity'',
                     PyFloat (homogeneity_of (cooccurrence (map (map (\<lambda>x. nat (x mod 256))) px))))],
            [])"
    using assms
    by (simp only: extract_glcm_features_def Let_def sum.case pixel_array.case cast
        texture_prop [OF bits] glcm_property_in_words)
  then show ?thesis
    using cooccurrence_sym cooccurrence_total [OF bits] by blast
qed

text \<open>The example slice holds the sample 300, which the cast turns into 44; its pairs are
  \<open>(0, 3)\<close> and \<open>(7, 44)\<close>.\<close>

theorem texture_record_witness:
  "extract_glcm_features (one_subject_tree example_slice) [''00000'', ''FLAIR'', ''Image-1.dcm''] =
     (Some [(''GLCM_Contrast'', PyFloat 689),
            (''GLCM_Correlation'', PyFloat (- (113 / 1265))),
            (''GLCM_Energy'', PyFloat (1 / 2)),
            (''GLCM_Homogeneity'', PyFloat (69 / 1370))], [])"
proof -
  have rd: "dcmread_pixel_array (one_subject_tree example_slice) [''00000'', ''FLAIR'', ''Image-1.dcm'']
            = Inr (Image [[0, 3], [7, 300]])"
    by (simp add: dcmread_pixel_array_def one_subject_tree_def example_slice_def is_image_def)
  have cast: "map (map (\<lambda>x. nat (x mod 256))) [[0, 3], [7, 300]] = [[0, 3], [7, 44::nat]]"
    by simp
  show ?thesis
    using texture_record [OF rd, THEN conjunct1]
    unfolding cast example_properties .
qed

text \<open>For an array of another shape \<open>graycomatrix\<close> raises, and the extractor logs the path
  and the error and returns the sentinel.\<close>

lemma other_shape_fails:
  assumes "dcmread_pixel_array fs p = Inr (OtherShape outcome)"
  shows "extract_glcm_features fs p =
           (None, [''Error extracting GLCM features from '' @ path_str p @ '': '' @
                   ''The parameter `image` must be a 2-dimensional array''])"
  using assms by (simp add: extract_glcm_features_def)

text \<open>
  C8, as stated, fails on a file whose pixel data reads but is not a two-dimensional
  array, such as a multi-frame file: the texture extractor returns \<open>None\<close>, not the four
  values.
\<close>

theorem multiframe_counterexample:
  "dcmread_pixel_array (one_subject_tree multiframe_file) [''00000'', ''FLAIR'', ''Image-1.dcm'']
     = Inr (OtherShape (Inr (100, 50, - 1000))) \<and>
   extract_glcm_features (one_subject_tree multiframe_file) [''00000'', ''FLAIR'', ''Image-1.dcm''] =
     (None, [''Error extracting GLCM features from 00000/FLAIR/Image-1.dcm: '' @
             ''The parameter `image` must be a 2-dimensional array''])"
proof -
  have rd: "dcmread_pixel_array (one_subject_tree multiframe_file) [''00000'', ''FLAIR'', ''Image-1.dcm'']
            = Inr (OtherShape (Inr (100, 50, - 1000)))"
    by (simp add: dcmread_pixel_array_def one_subject_tree_def multiframe_file_def)
  show ?thesis
    unfolding other_shape_fails [OF rd] rd
    by simp
qed

section \<open>The parallel driver\<close>

lemma map_of_tabulate:
  "map_of (tabulate keys B) k = (if k \<in> set keys then Some (B k) else None)"
  unfolding tabulate_def by (induction keys) auto

lemma update_tabulate:
  "distinct keys \<Longrightarrow> k \<in> set keys \<Longrightarrow>
   AList.update k v (tabulate keys B) = tabulate keys (B(k := v))"
  unfolding tabulate_def by (induction keys) auto

lemma group_table_labelled:
  assumes "labelled st t" "distinct keys"
  shows "group_table t (tabulate keys B) =
           (if rows t = [] then Inl IndexError
            else if st \<in> set keys then Inr (tabulate keys (B(st := B st @ [t])))
            else Inl KeyError)"
proof (cases "rows t")
  case Nil
  then show ?thesis
    using assms by (simp add: group_table_def get_column_def unique_first_def labelled_def)
next
  case (Cons r rs)
  then have "cell r ''ScanType'' = PyStr st"
    using assms(1) by (simp add: labelled_def)
  then show ?thesis
    using assms Cons
    by (simp add: group_table_def get_column_def unique_first_def labelled_def map_of_tabulate
        update_tabulate)
qed

lemma group_tables_labelled:
  assumes "distinct keys" "list_all (\<lambda>lt. labelled (fst lt) (snd lt) \<and> fst lt \<in> set keys) lts"
  shows "group_tables (map snd lts) (tabulate keys B) =
           (if list_ex (\<lambda>lt. rows (snd lt) = []) lts then Inl IndexError
            else Inr (tabulate keys (\<lambda>k. B k @ tables_of k lts)))"
  using assms(2)
proof (induction lts arbitrary: B)
  case Nil
  then show ?case by (simp add: tables_of_def)
next
  case (Cons lt lts)
  have l: "labelled (fst lt) (snd lt)" and k: "fst lt \<in> set keys"
    and rest: "list_all (\<lambda>lt. labelled (fst lt) (snd lt) \<and> fst lt \<in> set keys) lts"
    using Cons.prems by simp_all
  show ?case
  proof (cases "rows (snd lt) = []")
    case True
    then show ?thesis
      by (simp add: group_table_labelled [OF l assms(1)])
  next
    case False
    have eq: "(\<lambda>k. (if k = fst lt then B (fst lt) @ [snd lt] else B k) @ tables_of k lts) =
              (\<lambda>k. B k @ tables_of k (lt # lts))"
      by (auto simp: fun_eq_iff tables_of_def)
    show ?thesis
      using False k
      by (simp add: group_table_labelled [OF l assms(1)] Cons.IH [OF rest] eq)
  qed
qed

lemma group_tables_append:
  "group_tables (xs @ ys) d =
     (case group_tables xs d of Inl e \<Rightarrow> Inl e | Inr d' \<Rightarrow> group_tables ys d')"
  by (induction xs arbitrary: d) (auto split: sum.splits)

lemma group_results_concat: "group_results results d = group_tables (concat results) d"
  by (induction results arbitrary: d) (auto simp: group_tables_append split: sum.splits)

lemma concat_buckets_tabulate:
  "concat_buckets (tabulate keys B) =
     (if list_ex (\<lambda>k. B k = []) keys then Inl ValueError
      else Inr (map (\<lambda>k. (k, \<lparr>columns = fold (\<lambda>t cs. add_keys cs (columns t)) (B k) [],
                               rows = concat (map rows (B k))\<rparr>)) keys))"
  unfolding tabulate_def
  by (induction keys) (auto simp: pd_concat_def)

lemma update_empty_bucket:
  "AList.update st [] (tabulate keys (\<lambda>_. [])) =
     tabulate (if st \<in> set keys then keys else keys @ [st]) (\<lambda>_. [])"
  unfolding tabulate_def by (induction keys) auto

lemma init_buckets:
  "fold (\<lambda>scan_type d. AList.update scan_type [] d) sts (tabulate keys (\<lambda>_. [])) =
     tabulate (add_keys keys sts) (\<lambda>_. [])"
  unfolding add_keys_def
  by (induction sts arbitrary: keys) (simp_all add: update_empty_bucket)

lemma distinct_add_keys: "distinct cs \<Longrightarrow> distinct (add_keys cs ks)"
  unfolding add_keys_def by (induction ks arbitrary: cs) simp_all

lemma set_add_keys: "set (add_keys cs ks) = set cs \<union> set ks"
  unfolding add_keys_def by (induction ks arbitrary: cs) auto

lemma regroup_labelled:
  assumes "list_all (\<lambda>lt. labelled (fst lt) (snd lt) \<and> fst lt \<in> set (scan_types self)) lts"
    and "concat results = map snd lts"
  shows "regroup self results =
           (if list_ex (\<lambda>lt. rows (snd lt) = []) lts then Inl IndexError
            else if list_ex (\<lambda>k. tables_of k lts = []) (add_keys [] (scan_types self)) then Inl ValueError
            else Inr (map (\<lambda>k. (k, \<lparr>columns = fold (\<lambda>t cs. add_keys cs (columns t)) (tables_of k lts) [],
                                     rows = concat (map rows (tables_of k lts))\<rparr>))
                        (add_keys [] (scan_types self))))"
proof -
  let ?K = "add_keys [] (scan_types self)"
  have d0: "fold (\<lambda>scan_type d. AList.update scan_type [] d) (scan_types self) [] = tabulate ?K (\<lambda>_. [])"
    using init_buckets [of "scan_types self" "[]"] by (simp add: tabulate_def)
  have dist: "distinct ?K" by (rule distinct_add_keys) simp
  have l: "list_all (\<lambda>lt. labelled (fst lt) (snd lt) \<and> fst lt \<in> set ?K) lts"
    using assms(1) by (simp add: set_add_keys)
  have g: "group_results results (tabulate ?K (\<lambda>_. [])) =
      (if list_ex (\<lambda>lt. rows (snd lt) = []) lts then Inl IndexError
       else Inr (tabulate ?K (\<lambda>k. tables_of k lts)))"
    using group_tables_labelled [OF dist l, of "\<lambda>_. []"]
    by (simp add: group_results_concat assms(2))
  show ?thesis
    unfolding regroup_def Let_def d0 g
    by (simp add: concat_buckets_tabulate)
qed

lemma mset_concat_map:
  assumes "mset xs = mset ys"
  shows "mset (concat (map f xs)) = mset (concat (map f ys))"
proof -
  have "mset (concat (map f xs)) = sum_mset (image_mset (\<lambda>x. mset (f x)) (mset xs))"
    by (simp add: mset_concat sum_mset_sum_list [symmetric] multiset.map_comp o_def)
  also have "\<dots> = sum_mset (image_mset (\<lambda>x. mset (f x)) (mset ys))"
    by (simp only: assms)
  also have "\<dots> = mset (concat (map f ys))"
    by (simp add: mset_concat sum_mset_sum_list [symmetric] multiset.map_comp o_def)
  finally show ?thesis .
qed

lemma mset_tables_of:
  "mset lts' = mset lts \<Longrightarrow> mset (tables_of k lts') = mset (tables_of k lts)"
  by (simp add: tables_of_def)

lemma mset_bucket_rows:
  assumes "mset lts' = mset lts"
  shows "mset (concat (map rows (tables_of k lts'))) = mset (concat (map rows (tables_of k lts)))"
  by (rule mset_concat_map) (rule mset_tables_of [OF assms])

lemma summary_of_perm:
  assumes "mset lts' = mset lts"
  shows "summary_of keys lts' = summary_of keys lts"
proof -
  have s: "set lts' = set lts" using assms by (rule mset_eq_setD)
  have e: "(tables_of k lts' = []) = (tables_of k lts = [])" for k
    using mset_tables_of [OF assms, of k] by (metis mset_zero_iff)
  show ?thesis
    unfolding summary_of_def
    by (simp only: list_ex_iff s e mset_bucket_rows [OF assms])
qed

lemma run_summary_regroup:
  assumes "list_all (\<lambda>lt. labelled (fst lt) (snd lt) \<and> fst lt \<in> set (scan_types self)) lts"
    and "concat results = map snd lts"
  shows "run_summary (regroup self results) = summary_of (add_keys [] (scan_types self)) lts"
  unfolding regroup_labelled [OF assms] summary_of_def run_summary_def
  by (auto simp: row_counts_def file_scan_pairs_def o_def)

lemma scan_table_labelled: "labelled st (scan_table fp fs sp st)"
  by (simp add: labelled_def scan_table_def Let_def set_column_def list_all_iff cell_update)

lemma labelled_tables_ok:
  "list_all (\<lambda>lt. labelled (fst lt) (snd lt) \<and> fst lt \<in> set (scan_types self))
     (labelled_tables fp self fs subjects)"
  by (auto simp: labelled_tables_def list_all_iff scan_table_labelled present_scan_types_def)

lemma results_tables:
  "concat (map fst (map (process_subject fp self fs) subjects)) =
     map snd (labelled_tables fp self fs subjects)"
  by (simp add: labelled_tables_def process_subject_tables map_concat o_def)

lemma mset_labelled_tables:
  "mset subjects' = mset subjects \<Longrightarrow>
   mset (labelled_tables fp self fs subjects') = mset (labelled_tables fp self fs subjects)"
  unfolding labelled_tables_def by (rule mset_concat_map)

lemma process_subjects_summary:
  "run_summary (fst (process_subjects fp self fs subjects)) =
     (if num_workers self < 1 then Inl ValueError
      else summary_of (add_keys [] (scan_types self)) (labelled_tables fp self fs subjects))"
  using run_summary_regroup [OF labelled_tables_ok results_tables, where fp1 = fp and self = self
      and fs1 = fs and subjects1 = subjects]
  by (simp add: process_subjects_def Let_def run_summary_def)

lemma pipeline_is_process_subjects:
  "os_listdir fs (root_directory self) = Inr names \<Longrightarrow>
   process_all_subjects_parallel fp self fs =
     process_subjects fp self fs
       (map (os_path_join (root_directory self))
          (filter (\<lambda>subdir. os_path_isdir fs (os_path_join (root_directory self) subdir)) names))"
  by (simp add: process_all_subjects_parallel_def)

text \<open>A frame without rows makes the grouping loop raise, whatever else the run holds.\<close>

lemma empty_frame_raises:
  assumes "1 \<le> num_workers self" "sp \<in> set subjects" "st \<in> set (present_scan_types self fs sp)"
    "rows (scan_table fp fs sp st) = []"
  shows "fst (process_subjects fp self fs subjects) = Inl IndexError"
proof -
  have "(st, scan_table fp fs sp st) \<in> set (labelled_tables fp self fs subjects)"
    using assms(2,3) by (auto simp: labelled_tables_def)
  then have ex: "list_ex (\<lambda>lt. rows (snd lt) = []) (labelled_tables fp self fs subjects)"
    unfolding list_ex_iff using assms(4) by (intro bexI [of _ "(st, scan_table fp fs sp st)"]) simp_all
  have "regroup self (map fst (map (process_subject fp self fs) subjects)) = Inl IndexError"
    using regroup_labelled [OF labelled_tables_ok results_tables, where fp1 = fp and self = self
        and fs1 = fs and subjects1 = subjects] ex
    by simp
  then show ?thesis
    using assms(1) by (simp add: process_subjects_def Let_def)
qed

text \<open>
  C9. Take the subjects the driver lists under the root, and any run that hands them to
  the pool in another order (or gets their results back in another order). Both runs
  end the same way: with the same exception, or with result sets that have the same
  number of rows for each scan type and the same set of (file name, scan type) pairs.
\<close>

theorem rerun_same_counts_and_pairs:
  assumes "os_listdir fs (root_directory self) = Inr names"
    and "mset subjects' =
         mset (map (os_path_join (root_directory self))
                 (filter (\<lambda>subdir. os_path_isdir fs (os_path_join (root_directory self) subdir)) names))"
  shows "run_summary (fst (process_subjects fp self fs subjects')) =
         run_summary (fst (process_all_subjects_parallel fp self fs))"
  unfolding pipeline_is_process_subjects [OF assms(1)] process_subjects_summary
  by (simp only: summary_of_perm [OF mset_labelled_tables [OF assms(2)]])

text \<open>Two subjects, handed to the pool in the listed order and in the reverse order.\<close>

theorem rerun_same_counts_and_pairs_witness:
  "run_summary (fst (process_subjects exact_ops (init_DICOMProcessor [] 4) two_subject_tree
                       [[''00002''], [''00000'']])) =
   run_summary (fst (process_all_subjects_parallel exact_ops (init_DICOMProcessor [] 4) two_subject_tree))"
proof -
  have l: "os_listdir two_subject_tree (root_directory (init_DICOMProcessor [] 4)) =
             Inr [''00000'', ''README.txt'', ''00002'']"
    by (simp add: os_listdir_def init_DICOMProcessor_def two_subject_tree_def)
  have m: "mset [[''00002''], [''00000'']] =
           mset (map (os_path_join (root_directory (init_DICOMProcessor [] 4)))
                   (filter (\<lambda>subdir. os_path_isdir two_subject_tree
                              (os_path_join (root_directory (init_DICOMProcessor [] 4)) subdir))
                      [''00000'', ''README.txt'', ''00002'']))"
    by (simp add: os_path_isdir_def os_path_join_def init_DICOMProcessor_def two_subject_tree_def)
  show ?thesis
    using rerun_same_counts_and_pairs [OF l m, where fp = exact_ops] .
qed

section \<open>Runs that raise\<close>

lemma cell_update_other: "c' \<noteq> c \<Longrightarrow> cell (AList.update c v r) c' = cell r c'"
  by (simp add: cell_def AList.update_conv')

lemma cell_feature_row_filename:
  assumes "all_succeed fp fs p"
  shows "cell (feature_row fp fs p) ''DCMFileName'' = PyStr (os_path_basename p)"
proof -
  obtain m where m: "fst (extract_dicom_metadata fs p) = Some m"
    using assms by (auto simp: all_succeed_def)
  obtain s where s: "fst (extract_image_statistics fp fs p) = Some s"
    using assms by (auto simp: all_succeed_def)
  obtain g where g: "fst (extract_glcm_features fs p) = Some g"
    using assms by (auto simp: all_succeed_def)
  have "''DCMFileName'' \<notin> set (map fst s)"
    by (simp only: stats_keys [OF s]) simp
  then have ms: "map_of s ''DCMFileName'' = None"
    by (simp add: map_of_eq_None_iff)
  have "''DCMFileName'' \<notin> set (map fst g)"
    by (simp only: glcm_keys [OF g]) simp
  then have mg: "map_of g ''DCMFileName'' = None"
    by (simp add: map_of_eq_None_iff)
  have mm: "map_of m ''DCMFileName'' = Some (PyStr (os_path_basename p))"
    using m by (cases "dcmread_header fs p") (auto simp: extract_dicom_metadata_def metadata_keys_def)
  show ?thesis
    by (simp add: cell_def feature_row_union [OF assms] record_union_def m s g map_add_def ms mg mm)
qed

text \<open>The (file name, scan type) pairs of the rows of a frame.\<close>

lemma scan_table_pairs:
  "map (\<lambda>r. (cell r ''DCMFileName'', cell r ''ScanType'')) (rows (scan_table fp fs sp st)) =
     map (\<lambda>p. (PyStr (os_path_basename p), PyStr st))
       (filter (all_succeed fp fs) (dcm_paths fs (os_path_join sp st)))"
  by (simp add: scan_table_def Let_def set_column_def directory_rows_eq cell_update cell_update_other
      cell_feature_row_filename o_def)

lemma scan_table_pair_set:
  "(\<lambda>r. (cell r ''DCMFileName'', cell r ''ScanType'')) ` set (rows (scan_table fp fs sp st)) =
     (\<lambda>p. (PyStr (os_path_basename p), PyStr st)) `
       set (filter (all_succeed fp fs) (dcm_paths fs (os_path_join sp st)))"
  using arg_cong [OF scan_table_pairs [where fp = fp and fs = fs and sp = sp and st = st], of set] by (simp only: set_map)

lemma scan_table_length:
  "length (rows (scan_table fp fs sp st)) =
     length (filter (all_succeed fp fs) (dcm_paths fs (os_path_join sp st)))"
  by (simp add: scan_table_rows directory_rows_eq)

lemma scan_table_empty:
  "(rows (scan_table fp fs sp st) = []) =
     (filter (all_succeed fp fs) (dcm_paths fs (os_path_join sp st)) = [])"
  using scan_table_length [where fp = fp and fs = fs and sp = sp and st = st] by (metis length_0_conv)

lemmas summary_simps = process_subjects_summary summary_of_def labelled_tables_def
  present_scan_types_def tables_of_def add_keys_def init_DICOMProcessor_def
  os_path_exists_def os_path_join_def os_path_isdir_def os_listdir_def os_path_basename_def
  scan_table_length scan_table_empty scan_table_pair_set walk_simps read_simps

text \<open>With four healthy files, one per scan type, the run returns one row per scan type.\<close>

lemma healthy_run:
  "run_summary (fst (process_all_subjects_parallel fp (init_DICOMProcessor [] 4)
                       (one_subject_tree example_slice))) =
     Inr ([(''FLAIR'', 1), (''T1w'', 1), (''T1wCE'', 1), (''T2w'', 1)],
          {(PyStr ''Image-1.dcm'', PyStr ''FLAIR''), (PyStr ''Image-1.dcm'', PyStr ''T1w''),
           (PyStr ''Image-1.dcm'', PyStr ''T1wCE''), (PyStr ''Image-1.dcm'', PyStr ''T2w'')})"
proof -
  have l: "os_listdir (one_subject_tree example_slice) (root_directory (init_DICOMProcessor [] 4)) =
             Inr [''00000'']"
    by (simp add: os_listdir_def init_DICOMProcessor_def one_subject_tree_def)
  show ?thesis
    unfolding pipeline_is_process_subjects [OF l]
    by (simp add: summary_simps one_subject_tree_def insert_commute)
qed

text \<open>
  C3 on the code. For a file that is not DICOM each extractor logs the path and the error
  and returns \<open>None\<close>, and the walk of its directory goes on and returns a table (here
  without rows). But the run is not safe from the file: with the corrupt file as the
  only file of the FLAIR directory of the only subject, the FLAIR frame has no rows,
  \<open>scan_df['ScanType'].unique()[0]\<close> raises IndexError in the grouping loop and
  \<open>process_all_subjects_parallel\<close> returns nothing; with a healthy file in its place the
  same run returns four tables of one row.
\<close>

theorem corrupt_file_aborts_run:
  "extract_dicom_metadata (one_subject_tree corrupt_slice) [''00000'', ''FLAIR'', ''Image-1.dcm''] =
     (None, [''Error reading 00000/FLAIR/Image-1.dcm: File is missing DICOM File Meta Information header'']) \<and>
   extract_image_statistics fp (one_subject_tree corrupt_slice) [''00000'', ''FLAIR'', ''Image-1.dcm''] =
     (None, [''Error processing image data from 00000/FLAIR/Image-1.dcm: File is missing DICOM File Meta Information header'']) \<and>
   extract_glcm_features (one_subject_tree corrupt_slice) [''00000'', ''FLAIR'', ''Image-1.dcm''] =
     (None, [''Error extracting GLCM features from 00000/FLAIR/Image-1.dcm: File is missing DICOM File Meta Information header'']) \<and>
   rows (fst (process_dicom_directory fp (one_subject_tree corrupt_slice) [''00000'', ''FLAIR''])) = [] \<and>
   fst (process_all_subjects_parallel fp (init_DICOMProcessor [] 4) (one_subject_tree corrupt_slice)) =
     Inl IndexError \<and>
   run_summary (fst (process_all_subjects_parallel fp (init_DICOMProcessor [] 4)
                       (one_subject_tree example_slice))) =
     Inr ([(''FLAIR'', 1), (''T1w'', 1), (''T1wCE'', 1), (''T2w'', 1)],
          {(PyStr ''Image-1.dcm'', PyStr ''FLAIR''), (PyStr ''Image-1.dcm'', PyStr ''T1w''),
           (PyStr ''Image-1.dcm'', PyStr ''T1wCE''), (PyStr ''Image-1.dcm'', PyStr ''T2w'')})"
proof -
  let ?fs = "one_subject_tree corrupt_slice"
  let ?self = "init_DICOMProcessor [] 4"
  have h: "dcmread_header ?fs [''00000'', ''FLAIR'', ''Image-1.dcm''] =
             Inl ''File is missing DICOM File Meta Information header''"
    by (simp add: dcmread_header_def one_subject_tree_def corrupt_slice_def)
  have px: "dcmread_pixel_array ?fs [''00000'', ''FLAIR'', ''Image-1.dcm''] =
             Inl ''File is missing DICOM File Meta Information header''"
    by (simp add: dcmread_pixel_array_def one_subject_tree_def corrupt_slice_def)
  have e: "rows (fst (process_dicom_directory fp ?fs [''00000'', ''FLAIR''])) = []"
    by (simp add: directory_rows_eq walk_simps read_simps one_subject_tree_def)
  have l: "os_listdir ?fs (root_directory ?self) = Inr [''00000'']"
    by (simp add: os_listdir_def init_DICOMProcessor_def one_subject_tree_def)
  have s: "[''00000''] \<in> set (map (os_path_join (root_directory ?self))
          (filter (\<lambda>subdir. os_path_isdir ?fs (os_path_join (root_directory ?self) subdir)) [''00000'']))"
    by (simp add: os_path_isdir_def os_path_join_def init_DICOMProcessor_def one_subject_tree_def)
  have st: "''FLAIR'' \<in> set (present_scan_types ?self ?fs [''00000''])"
    by (simp add: present_scan_types_def init_DICOMProcessor_def os_path_exists_def os_path_join_def
        one_subject_tree_def)
  have er: "rows (scan_table fp ?fs [''00000''] ''FLAIR'') = []"
    using e scan_table_rows [where fp = fp and fs = ?fs and sp = "[''00000'']" and st = "''FLAIR''"] by (simp add: os_path_join_def)
  have w: "1 \<le> num_workers ?self" by (simp add: init_DICOMProcessor_def)
  have r: "fst (process_all_subjects_parallel fp ?self ?fs) = Inl IndexError"
    unfolding pipeline_is_process_subjects [OF l]
    by (rule empty_frame_raises [OF w s st er])
  show ?thesis
    using e r healthy_run
    by (simp add: extractors_contain_failures(1) [OF h] extractors_contain_failures(2) [OF px]
        extractors_contain_failures(3) [OF px])
qed

text \<open>
  C2 on the code. With no subject under the root every bucket stays empty and
  \<open>pd.concat([])\<close> raises ValueError. With a subject whose FLAIR directory exists and holds
  no file the FLAIR frame has no rows and \<open>scan_df['ScanType'].unique()[0]\<close> raises
  IndexError. With a subject that has no FLAIR directory at all the FLAIR bucket stays
  empty and \<open>pd.concat([])\<close> raises ValueError. In each case the exception reaches the
  caller of \<open>process_all_subjects_parallel\<close>.
\<close>

theorem empty_inputs_raise:
  "fst (process_all_subjects_parallel fp (init_DICOMProcessor [] 4) (Dir [])) = Inl ValueError \<and>
   rows (fst (process_dicom_directory fp empty_flair_tree [''00000'', ''FLAIR''])) = [] \<and>
   fst (process_all_subjects_parallel fp (init_DICOMProcessor [] 4) empty_flair_tree) = Inl IndexError \<and>
   fst (process_all_subjects_parallel fp (init_DICOMProcessor [] 4) two_scan_tree) = Inl ValueError"
proof -
  let ?fs = "empty_flair_tree"
  let ?self = "init_DICOMProcessor [] 4"
  have a: "fst (process_all_subjects_parallel fp ?self (Dir [])) = Inl ValueError"
    by (simp add: process_all_subjects_parallel_def process_subjects_def regroup_def os_listdir_def
        init_DICOMProcessor_def pd_concat_def)
  have e: "rows (fst (process_dicom_directory fp ?fs [''00000'', ''FLAIR''])) = []"
    by (simp add: directory_rows_eq walk_simps empty_flair_tree_def)
  have l: "os_listdir ?fs (root_directory ?self) = Inr [''00000'']"
    by (simp add: os_listdir_def init_DICOMProcessor_def empty_flair_tree_def)
  have s: "[''00000''] \<in> set (map (os_path_join (root_directory ?self))
          (filter (\<lambda>subdir. os_path_isdir ?fs (os_path_join (root_directory ?self) subdir)) [''00000'']))"
    by (simp add: os_path_isdir_def os_path_join_def init_DICOMProcessor_def empty_flair_tree_def)
  have st: "''FLAIR'' \<in> set (present_scan_types ?self ?fs [''00000''])"
    by (simp add: present_scan_types_def init_DICOMProcessor_def os_path_exists_def os_path_join_def
        empty_flair_tree_def)
  have er: "rows (scan_table fp ?fs [''00000''] ''FLAIR'') = []"
    using e scan_table_rows [where fp = fp and fs = ?fs and sp = "[''00000'']" and st = "''FLAIR''"] by (simp add: os_path_join_def)
  have w: "1 \<le> num_workers ?self" by (simp add: init_DICOMProcessor_def)
  have b: "fst (process_all_subjects_parallel fp ?self ?fs) = Inl IndexError"
    unfolding pipeline_is_process_subjects [OF l]
    by (rule empty_frame_raises [OF w s st er])
  have l2: "os_listdir two_scan_tree (root_directory ?self) = Inr [''00002'']"
    by (simp add: os_listdir_def init_DICOMProcessor_def two_scan_tree_def)
  have "run_summary (fst (process_all_subjects_parallel fp ?self two_scan_tree)) = Inl ValueError"
    unfolding pipeline_is_process_subjects [OF l2]
    by (simp add: summary_simps two_scan_tree_def)
  then have c: "fst (process_all_subjects_parallel fp ?self two_scan_tree) = Inl ValueError"
    by (simp add: run_summary_def split: sum.splits)
  show ?thesis
    using a e b c by simp
qed

end
